theory Spec2Isabelle
  imports Complex_Main
begin

section \<open>Data model\<close>

text \<open>
  Identifiers are opaque strings assigned by the backend. A polygon is a flat sequence of
  coordinates, a segmentation a list of polygons. Coordinates, bounding boxes and areas are
  JavaScript numbers that the hooks only pass through (no arithmetic is done on them), so
  they are modelled as reals.
\<close>

type_synonym image_id = string
type_synonym annotation_id = string
type_synonym polygon = "real list"
type_synonym segmentation = "polygon list"

text \<open>
  The objects of the source share keys: \<open>bbox\<close> and \<open>area\<close> occur in the payload of
  \<open>createAnnotation\<close>, in an annotation and in a segmentation preview. They are the root
  record; the others extend it.
\<close>

record shape =
  bbox :: "real list"
  area :: real

text \<open>The payload \<open>{class_id, class_name, segmentation, bbox, area}\<close> of \<open>createAnnotation\<close>.\<close>

record annotation_fields = shape +
  class_id :: nat
  class_name :: string
  segmentation :: segmentation

text \<open>An annotation as the backend returns it: the payload plus its \<open>id\<close>.\<close>

record annotation = annotation_fields +
  ann_id :: annotation_id

text \<open>
  The \<open>data\<close> object of \<open>updateAnnotation(annotationId, data)\<close>: a partial object, a key
  that is absent is \<open>None\<close>.
\<close>

record annotation_patch =
  upd_class_id :: "nat option"
  upd_class_name :: "string option"
  upd_segmentation :: "segmentation option"
  upd_bbox :: "real list option"
  upd_area :: "real option"

text \<open>A prompt point \<open>{x, y, is_positive}\<close>.\<close>

record point =
  pt_x :: real
  pt_y :: real
  is_positive :: bool

text \<open>The result \<open>{polygon, bbox, area}\<close> of \<open>segmentImage\<close>, held as \<open>sam.preview\<close>.\<close>

record preview_result = shape +
  polygon :: segmentation

text \<open>
  An entry of \<open>confirmedPreviews\<close>: \<open>{...sam.preview, classId, className, sourceId}\<close>.
\<close>

record confirmed_preview = preview_result +
  classId :: nat
  className :: string
  sourceId :: annotation_id

text \<open>The result \<open>{positive_points, negative_points}\<close> of \<open>generateTransferPoints\<close>.\<close>

record points_data =
  positive_points :: "point list"
  negative_points :: "point list"

text \<open>An image of the image list; only its \<open>id\<close> is read.\<close>

record image_entry =
  img_id :: image_id

text \<open>
  A rejected promise carries an error whose \<open>message\<close> may be missing or empty; both are
  falsy, and \<open>err.message || fallback\<close> then yields the fallback.
\<close>

datatype api_error = ApiError string

fun message_or :: "api_error \<Rightarrow> string \<Rightarrow> string" where
  "message_or (ApiError m) fallback = (if m = [] then fallback else m)"

text \<open>\<open>!imageId\<close>: \<open>null\<close> and the empty string are falsy.\<close>

fun unset :: "image_id option \<Rightarrow> bool" where
  "unset None = True"
| "unset (Some i) = (i = [])"

text \<open>The records of the undo and redo stacks, tagged by \<open>type\<close>.\<close>

datatype action =
  Create annotation
| Delete annotation
| Update annotation annotation
| Merge "annotation list" annotation

section \<open>The backend as a collaborator\<close>

text \<open>
  Every request of \<open>utils/api.js\<close> is recorded in a log of the calls issued so far. The
  backend is a black box: each of its answers is a function of the calls issued before and
  of the request, \<open>Inl\<close> for a rejected promise.
\<close>

datatype api_call =
  FetchAnnotations image_id
| CreateAnnotation "image_id option" annotation_fields
| UpdateAnnotation annotation_id annotation_patch
| DeleteAnnotation annotation_id
| MergeAnnotations "annotation_id list" nat string
| EncodeImage image_id
| SegmentImage image_id "point list" "segmentation list option"
| GenerateTransferPoints segmentation "real list" nat nat

record collaborator =
  fetchAnnotations :: "api_call list \<Rightarrow> image_id \<Rightarrow> api_error + annotation list"
  createAnnotation :: "api_call list \<Rightarrow> image_id option \<Rightarrow> annotation_fields \<Rightarrow> api_error + annotation"
  updateAnnotationApi :: "api_call list \<Rightarrow> annotation_id \<Rightarrow> annotation_patch \<Rightarrow> api_error + annotation"
  deleteAnnotationApi :: "api_call list \<Rightarrow> annotation_id \<Rightarrow> api_error + unit"
  mergeAnnotationsApi :: "api_call list \<Rightarrow> annotation_id list \<Rightarrow> nat \<Rightarrow> string \<Rightarrow> api_error + annotation"
  encodeImage :: "api_call list \<Rightarrow> image_id \<Rightarrow> api_error + unit"
  segmentImage :: "api_call list \<Rightarrow> image_id \<Rightarrow> point list \<Rightarrow> segmentation list option \<Rightarrow> api_error + preview_result"
  generateTransferPoints :: "api_call list \<Rightarrow> segmentation \<Rightarrow> real list \<Rightarrow> nat \<Rightarrow> nat \<Rightarrow> api_error + points_data"

section \<open>useAnnotations: the annotation store and its action log\<close>

text \<open>
  The state of the hook. Both stacks grow at the end: the top is the last element. Each
  operation runs to completion before the next begins, so the \<open>annotations\<close> a callback
  closes over are the current ones. An operation takes the hook state and the call log and
  returns its outcome with both updated; \<open>Inl\<close> is a rejected promise, \<open>Inr None\<close> a
  promise resolved with \<open>null\<close> or \<open>undefined\<close>.
\<close>

record annotations_state =
  annotations :: "annotation list"
  isLoading :: bool
  error :: "string option"
  undoStack :: "action list"
  redoStack :: "action list"

type_synonym store = "annotations_state \<times> api_call list"

text \<open>The effect that runs when \<open>imageId\<close> changes (lines 18-42).\<close>

definition loadAnnotations :: "collaborator \<Rightarrow> image_id option \<Rightarrow> store \<Rightarrow> store" where
  "loadAnnotations api imageId = (\<lambda>(st, calls).
     case imageId of
       None \<Rightarrow> (st\<lparr>annotations := []\<rparr>, calls)
     | Some i \<Rightarrow>
         if i = [] then (st\<lparr>annotations := []\<rparr>, calls)
         else (case fetchAnnotations api calls i of
             Inr data \<Rightarrow>
               (st\<lparr>annotations := data, isLoading := False, error := None,
                   undoStack := [], redoStack := []\<rparr>,
                calls @ [FetchAnnotations i])
           | Inl err \<Rightarrow>
               (st\<lparr>isLoading := False,
                   error := Some (message_or err ''Failed to load annotations'')\<rparr>,
                calls @ [FetchAnnotations i])))"

definition saveAnnotation ::
  "collaborator \<Rightarrow> image_id option \<Rightarrow> segmentation \<Rightarrow> real list \<Rightarrow> real \<Rightarrow> nat \<Rightarrow> string \<Rightarrow>
   store \<Rightarrow> (api_error + annotation option) \<times> store" where
  "saveAnnotation api imageId seg bb ar cid cname = (\<lambda>(st, calls).
     if unset imageId then (Inr None, st, calls)
     else
       let data = \<lparr>bbox = bb, area = ar, class_id = cid, class_name = cname, segmentation = seg\<rparr>
       in case createAnnotation api calls imageId data of
            Inr a \<Rightarrow>
              (Inr (Some a),
               st\<lparr>annotations := annotations st @ [a],
                  undoStack := undoStack st @ [Create a],
                  redoStack := []\<rparr>,
               calls @ [CreateAnnotation imageId data])
          | Inl err \<Rightarrow>
              (Inl err,
               st\<lparr>error := Some (message_or err ''Failed to save annotation'')\<rparr>,
               calls @ [CreateAnnotation imageId data]))"

definition deleteAnnotation ::
  "collaborator \<Rightarrow> annotation_id \<Rightarrow> store \<Rightarrow> (api_error + annotation option) \<times> store" where
  "deleteAnnotation api annotationId = (\<lambda>(st, calls).
     case find (\<lambda>a. ann_id a = annotationId) (annotations st) of
       None \<Rightarrow> (Inr None, st, calls)
     | Some a \<Rightarrow>
         (case deleteAnnotationApi api calls annotationId of
            Inr _ \<Rightarrow>
              (Inr None,
               st\<lparr>annotations := filter (\<lambda>x. ann_id x \<noteq> annotationId) (annotations st),
                  undoStack := undoStack st @ [Delete a],
                  redoStack := []\<rparr>,
               calls @ [DeleteAnnotation annotationId])
          | Inl err \<Rightarrow>
              (Inl err,
               st\<lparr>error := Some (message_or err ''Failed to delete annotation'')\<rparr>,
               calls @ [DeleteAnnotation annotationId])))"

definition updateAnnotation ::
  "collaborator \<Rightarrow> annotation_id \<Rightarrow> annotation_patch \<Rightarrow> store \<Rightarrow>
   (api_error + annotation option) \<times> store" where
  "updateAnnotation api annotationId data = (\<lambda>(st, calls).
     case find (\<lambda>a. ann_id a = annotationId) (annotations st) of
       None \<Rightarrow> (Inr None, st, calls)
     | Some oldAnnotation \<Rightarrow>
         (case updateAnnotationApi api calls annotationId data of
            Inr updated \<Rightarrow>
              (Inr (Some updated),
               st\<lparr>annotations :=
                    map (\<lambda>a. if ann_id a = annotationId then updated else a) (annotations st),
                  undoStack := undoStack st @ [Update oldAnnotation updated],
                  redoStack := []\<rparr>,
               calls @ [UpdateAnnotation annotationId data])
          | Inl err \<Rightarrow>
              (Inl err,
               st\<lparr>error := Some (message_or err ''Failed to update annotation'')\<rparr>,
               calls @ [UpdateAnnotation annotationId data])))"

definition mergeAnnotations ::
  "collaborator \<Rightarrow> image_id option \<Rightarrow> annotation_id list \<Rightarrow> nat \<Rightarrow> string \<Rightarrow> store \<Rightarrow>
   (api_error + annotation option) \<times> store" where
  "mergeAnnotations api imageId annotationIds cid cname = (\<lambda>(st, calls).
     if unset imageId \<or> length annotationIds < 2 then (Inr None, st, calls)
     else
       let mergedAnnotations = filter (\<lambda>a. ann_id a \<in> set annotationIds) (annotations st)
       in case mergeAnnotationsApi api calls annotationIds cid cname of
            Inr merged \<Rightarrow>
              (Inr (Some merged),
               st\<lparr>annotations :=
                    filter (\<lambda>a. ann_id a \<notin> set annotationIds) (annotations st) @ [merged],
                  undoStack := undoStack st @ [Merge mergedAnnotations merged],
                  redoStack := []\<rparr>,
               calls @ [MergeAnnotations annotationIds cid cname])
          | Inl err \<Rightarrow>
              (Inl err,
               st\<lparr>error := Some (message_or err ''Failed to merge annotations'')\<rparr>,
               calls @ [MergeAnnotations annotationIds cid cname]))"

text \<open>
  The payload with which \<open>undo\<close> and \<open>redo\<close> recreate an annotation: its five fields,
  without the \<open>id\<close>.
\<close>

definition fields_of :: "annotation \<Rightarrow> annotation_fields" where
  "fields_of a =
     \<lparr>bbox = bbox a, area = area a, class_id = class_id a, class_name = class_name a,
      segmentation = segmentation a\<rparr>"

text \<open>
  The payload \<open>{class_id, class_name}\<close> that \<open>undo\<close> and \<open>redo\<close> send for an
  \<open>update\<close> record (lines 175-178 and 235-238).
\<close>

definition class_patch :: "annotation \<Rightarrow> annotation_patch" where
  "class_patch a =
     \<lparr>upd_class_id = Some (class_id a), upd_class_name = Some (class_name a),
      upd_segmentation = None, upd_bbox = None, upd_area = None\<rparr>"

text \<open>
  The loop of \<open>undo\<close> over \<open>action.mergedAnnotations\<close> (lines 185-195): one
  \<open>createAnnotation\<close> per source, stopping at the first that fails.
\<close>

fun recreate ::
  "collaborator \<Rightarrow> image_id option \<Rightarrow> annotation list \<Rightarrow> annotation list \<Rightarrow> api_call list \<Rightarrow>
   (api_error + annotation list) \<times> api_call list" where
  "recreate api imageId [] recreated calls = (Inr recreated, calls)"
| "recreate api imageId (ann # anns) recreated calls =
     (case createAnnotation api calls imageId (fields_of ann) of
        Inr newAnn \<Rightarrow>
          recreate api imageId anns (recreated @ [newAnn])
            (calls @ [CreateAnnotation imageId (fields_of ann)])
      | Inl err \<Rightarrow> (Inl err, calls @ [CreateAnnotation imageId (fields_of ann)]))"

text \<open>
  \<open>undo\<close> (lines 148-207). The record is popped before the delegated call; a failure is
  caught, sets \<open>error\<close> and does not push the record anywhere. A recreated annotation
  replaces the one held by the record before it is pushed on the redo stack.
\<close>

definition undo :: "collaborator \<Rightarrow> image_id option \<Rightarrow> store \<Rightarrow> store" where
  "undo api imageId = (\<lambda>(st, calls).
     if undoStack st = [] then (st, calls)
     else
       let action = last (undoStack st);
           st1 = st\<lparr>undoStack := butlast (undoStack st)\<rparr>;
           failed = (\<lambda>err. st1\<lparr>error := Some (message_or err ''Failed to undo'')\<rparr>)
       in case action of
            Create a \<Rightarrow>
              (case deleteAnnotationApi api calls (ann_id a) of
                 Inr _ \<Rightarrow>
                   (st1\<lparr>annotations := filter (\<lambda>x. ann_id x \<noteq> ann_id a) (annotations st1),
                        redoStack := redoStack st1 @ [Create a]\<rparr>,
                    calls @ [DeleteAnnotation (ann_id a)])
               | Inl err \<Rightarrow> (failed err, calls @ [DeleteAnnotation (ann_id a)]))
          | Delete a \<Rightarrow>
              (case createAnnotation api calls imageId (fields_of a) of
                 Inr annotation \<Rightarrow>
                   (st1\<lparr>annotations := annotations st1 @ [annotation],
                        redoStack := redoStack st1 @ [Delete annotation]\<rparr>,
                    calls @ [CreateAnnotation imageId (fields_of a)])
               | Inl err \<Rightarrow> (failed err, calls @ [CreateAnnotation imageId (fields_of a)]))
          | Update oldAnnotation newAnnotation \<Rightarrow>
              (case updateAnnotationApi api calls (ann_id newAnnotation) (class_patch oldAnnotation) of
                 Inr updated \<Rightarrow>
                   (st1\<lparr>annotations :=
                          map (\<lambda>a. if ann_id a = ann_id newAnnotation then updated else a)
                            (annotations st1),
                        redoStack := redoStack st1 @ [Update oldAnnotation newAnnotation]\<rparr>,
                    calls @ [UpdateAnnotation (ann_id newAnnotation) (class_patch oldAnnotation)])
               | Inl err \<Rightarrow>
                   (failed err,
                    calls @ [UpdateAnnotation (ann_id newAnnotation) (class_patch oldAnnotation)]))
          | Merge mergedAnnotations newAnnotation \<Rightarrow>
              (case deleteAnnotationApi api calls (ann_id newAnnotation) of
                 Inl err \<Rightarrow> (failed err, calls @ [DeleteAnnotation (ann_id newAnnotation)])
               | Inr _ \<Rightarrow>
                   (case recreate api imageId mergedAnnotations []
                           (calls @ [DeleteAnnotation (ann_id newAnnotation)]) of
                      (Inr recreated, calls') \<Rightarrow>
                        (st1\<lparr>annotations :=
                               filter (\<lambda>a. ann_id a \<noteq> ann_id newAnnotation) (annotations st1)
                               @ recreated,
                             redoStack := redoStack st1 @ [Merge recreated newAnnotation]\<rparr>,
                         calls')
                    | (Inl err, calls') \<Rightarrow> (failed err, calls'))))"

text \<open>\<open>redo\<close> (lines 209-261), the mirror image of \<open>undo\<close>.\<close>

definition redo :: "collaborator \<Rightarrow> image_id option \<Rightarrow> store \<Rightarrow> store" where
  "redo api imageId = (\<lambda>(st, calls).
     if redoStack st = [] then (st, calls)
     else
       let action = last (redoStack st);
           st1 = st\<lparr>redoStack := butlast (redoStack st)\<rparr>;
           failed = (\<lambda>err. st1\<lparr>error := Some (message_or err ''Failed to redo'')\<rparr>)
       in case action of
            Create a \<Rightarrow>
              (case createAnnotation api calls imageId (fields_of a) of
                 Inr annotation \<Rightarrow>
                   (st1\<lparr>annotations := annotations st1 @ [annotation],
                        undoStack := undoStack st1 @ [Create annotation]\<rparr>,
                    calls @ [CreateAnnotation imageId (fields_of a)])
               | Inl err \<Rightarrow> (failed err, calls @ [CreateAnnotation imageId (fields_of a)]))
          | Delete a \<Rightarrow>
              (case deleteAnnotationApi api calls (ann_id a) of
                 Inr _ \<Rightarrow>
                   (st1\<lparr>annotations := filter (\<lambda>x. ann_id x \<noteq> ann_id a) (annotations st1),
                        undoStack := undoStack st1 @ [Delete a]\<rparr>,
                    calls @ [DeleteAnnotation (ann_id a)])
               | Inl err \<Rightarrow> (failed err, calls @ [DeleteAnnotation (ann_id a)]))
          | Update oldAnnotation newAnnotation \<Rightarrow>
              (case updateAnnotationApi api calls (ann_id oldAnnotation) (class_patch newAnnotation) of
                 Inr updated \<Rightarrow>
                   (st1\<lparr>annotations :=
                          map (\<lambda>a. if ann_id a = ann_id oldAnnotation then updated else a)
                            (annotations st1),
                        undoStack := undoStack st1 @ [Update oldAnnotation newAnnotation]\<rparr>,
                    calls @ [UpdateAnnotation (ann_id oldAnnotation) (class_patch newAnnotation)])
               | Inl err \<Rightarrow>
                   (failed err,
                    calls @ [UpdateAnnotation (ann_id oldAnnotation) (class_patch newAnnotation)]))
          | Merge mergedAnnotations newAnnotation \<Rightarrow>
              (let annotationIds = map ann_id mergedAnnotations
               in case mergeAnnotationsApi api calls annotationIds
                         (class_id newAnnotation) (class_name newAnnotation) of
                    Inr merged \<Rightarrow>
                      (st1\<lparr>annotations :=
                             filter (\<lambda>a. ann_id a \<notin> set annotationIds) (annotations st1)
                             @ [merged],
                           undoStack := undoStack st1 @ [Merge mergedAnnotations merged]\<rparr>,
                       calls @ [MergeAnnotations annotationIds
                                (class_id newAnnotation) (class_name newAnnotation)])
                  | Inl err \<Rightarrow>
                      (failed err,
                       calls @ [MergeAnnotations annotationIds
                                (class_id newAnnotation) (class_name newAnnotation)])))"

section \<open>useSAM: the segmentation orchestrator\<close>

text \<open>
  The state of the hook; \<open>encodedImageRef\<close> is the single-slot cache of the image whose
  embedding the backend holds.
\<close>

record sam_state =
  isEncoding :: bool
  isSegmenting :: bool
  preview :: "preview_result option"
  sam_error :: "string option"
  encodedImageRef :: "image_id option"

type_synonym sam = "sam_state \<times> api_call list"

definition encode :: "collaborator \<Rightarrow> image_id \<Rightarrow> sam \<Rightarrow> (api_error + unit) \<times> sam" where
  "encode api imageId = (\<lambda>(s, calls).
     if encodedImageRef s = Some imageId then (Inr (), s, calls)
     else (case encodeImage api calls imageId of
         Inr _ \<Rightarrow>
           (Inr (),
            s\<lparr>isEncoding := False, sam_error := None, encodedImageRef := Some imageId\<rparr>,
            calls @ [EncodeImage imageId])
       | Inl err \<Rightarrow>
           (Inl err,
            s\<lparr>isEncoding := False,
               sam_error := Some (message_or err ''Failed to encode image'')\<rparr>,
            calls @ [EncodeImage imageId])))"

definition segment ::
  "collaborator \<Rightarrow> image_id \<Rightarrow> point list \<Rightarrow> segmentation list option \<Rightarrow> sam \<Rightarrow>
   (api_error + preview_result option) \<times> sam" where
  "segment api imageId points existingPolygons = (\<lambda>(s, calls).
     if points = [] then (Inr None, s\<lparr>preview := None\<rparr>, calls)
     else
       let s1 = s\<lparr>isSegmenting := True, sam_error := None\<rparr>
       in case (if encodedImageRef s1 \<noteq> Some imageId then encode api imageId (s1, calls)
                else (Inr (), s1, calls)) of
            (Inl err, s2, calls2) \<Rightarrow>
              (Inl err,
               s2\<lparr>isSegmenting := False,
                   sam_error := Some (message_or err ''Failed to segment'')\<rparr>,
               calls2)
          | (Inr _, s2, calls2) \<Rightarrow>
              (case segmentImage api calls2 imageId points existingPolygons of
                 Inr result \<Rightarrow>
                   (Inr (Some result),
                    s2\<lparr>isSegmenting := False, preview := Some result\<rparr>,
                    calls2 @ [SegmentImage imageId points existingPolygons])
               | Inl err \<Rightarrow>
                   (Inl err,
                    s2\<lparr>isSegmenting := False,
                        sam_error := Some (message_or err ''Failed to segment'')\<rparr>,
                    calls2 @ [SegmentImage imageId points existingPolygons])))"

definition clearPreview :: "sam_state \<Rightarrow> sam_state" where
  "clearPreview s = s\<lparr>preview := None\<rparr>"

definition resetEncoder :: "sam_state \<Rightarrow> sam_state" where
  "resetEncoder s = s\<lparr>preview := None, encodedImageRef := None\<rparr>"

section \<open>useTransfer: the label transfer workflow\<close>

record transfer_settings =
  positivePoints :: nat
  negativePoints :: nat

record transfer_state =
  settings :: transfer_settings
  isActive :: bool
  sourceAnnotations :: "annotation list"
  currentIndex :: nat
  confirmedPreviews :: "confirmed_preview list"
  transfer_isLoading :: bool
  transfer_error :: "string option"
  transferPoints :: "point list option"

text \<open>\<open>Array.prototype.findIndex\<close>: the first position that satisfies the test, or \<open>-1\<close>.\<close>

fun findIndex :: "('a \<Rightarrow> bool) \<Rightarrow> 'a list \<Rightarrow> int" where
  "findIndex P [] = - 1"
| "findIndex P (x # xs) =
     (if P x then 0 else (let r = findIndex P xs in if r < 0 then - 1 else r + 1))"

definition previousImageId :: "image_id option \<Rightarrow> image_entry list \<Rightarrow> image_id option" where
  "previousImageId currentImageId images =
     (if unset currentImageId \<or> images = [] then None
      else
        let currentIdx = findIndex (\<lambda>img. Some (img_id img) = currentImageId) images
        in if currentIdx \<le> 0 then None else Some (img_id (images ! nat (currentIdx - 1))))"

definition canStartTransfer :: "image_id option \<Rightarrow> image_entry list \<Rightarrow> transfer_state \<Rightarrow> bool" where
  "canStartTransfer currentImageId images t =
     (\<not> unset (previousImageId currentImageId images) \<and> \<not> isActive t)"

definition currentAnnotation :: "transfer_state \<Rightarrow> annotation option" where
  "currentAnnotation t =
     (if \<not> isActive t \<or> sourceAnnotations t = [] then None
      else if currentIndex t < length (sourceAnnotations t)
        then Some (sourceAnnotations t ! currentIndex t)
        else None)"

text \<open>
  The exclusion list of \<open>generateAndSegment\<close> (lines 98-105): the segmentations of the
  annotations of the current slice (none when \<open>existingAnnotations\<close> is missing), then the
  polygon of every confirmed preview. The test \<open>if (p.polygon)\<close> only skips a preview
  without a polygon; a \<open>preview_result\<close> always holds one, and an array is truthy even
  when it is empty.
\<close>

definition existingPolygons ::
  "annotation list option \<Rightarrow> confirmed_preview list \<Rightarrow> segmentation list" where
  "existingPolygons existingAnnotations confirmed =
     (case existingAnnotations of None \<Rightarrow> [] | Some as \<Rightarrow> map segmentation as)
     @ map polygon confirmed"

type_synonym transfer = "transfer_state \<times> sam_state \<times> api_call list"

text \<open>
  \<open>generateAndSegment\<close> (lines 75-115). The callback closes over the values of the render
  that created it: \<open>rendered\<close> is the transfer state of that render, from which it reads
  \<open>settings\<close> and \<open>confirmedPreviews\<close>, while its state updates apply to the current
  state. It catches every failure, so it never rejects.
\<close>

definition generateAndSegment ::
  "collaborator \<Rightarrow> image_id option \<Rightarrow> annotation list option \<Rightarrow> transfer_state \<Rightarrow>
   annotation option \<Rightarrow> transfer \<Rightarrow> transfer" where
  "generateAndSegment api currentImageId existingAnnotations rendered annotation = (\<lambda>(t, s, calls).
     case (currentImageId, annotation) of
       (Some i, Some a) \<Rightarrow>
         if i = [] then (t, s, calls)
         else
           let t1 = t\<lparr>transfer_isLoading := True, transfer_error := None\<rparr>;
               pos = positivePoints (settings rendered);
               neg = negativePoints (settings rendered);
               request = GenerateTransferPoints (segmentation a) (bbox a) pos neg
           in (case generateTransferPoints api calls (segmentation a) (bbox a) pos neg of
                 Inl err \<Rightarrow>
                   (t1\<lparr>transfer_isLoading := False,
                       transfer_error := Some (message_or err ''Failed to generate segmentation''),
                       transferPoints := None\<rparr>,
                    s, calls @ [request])
               | Inr pointsData \<Rightarrow>
                   let allPoints = positive_points pointsData @ negative_points pointsData;
                       polys = existingPolygons existingAnnotations (confirmedPreviews rendered)
                   in (case segment api i allPoints (if polys \<noteq> [] then Some polys else None)
                              (s, calls @ [request]) of
                         (Inr _, s', calls') \<Rightarrow>
                           (t1\<lparr>transfer_isLoading := False, transferPoints := Some allPoints\<rparr>,
                            s', calls')
                       | (Inl err, s', calls') \<Rightarrow>
                           (t1\<lparr>transfer_isLoading := False,
                               transfer_error :=
                                 Some (message_or err ''Failed to generate segmentation''),
                               transferPoints := None\<rparr>,
                            s', calls')))
     | _ \<Rightarrow> (t, s, calls))"

text \<open>\<open>startTransfer\<close> (lines 118-149).\<close>

definition startTransfer ::
  "collaborator \<Rightarrow> image_id option \<Rightarrow> image_entry list \<Rightarrow> annotation list option \<Rightarrow>
   transfer \<Rightarrow> transfer" where
  "startTransfer api currentImageId images existingAnnotations = (\<lambda>(t, s, calls).
     case previousImageId currentImageId images of
       None \<Rightarrow> (t\<lparr>transfer_error := Some ''No previous slice available''\<rparr>, s, calls)
     | Some prev \<Rightarrow>
         if prev = [] then (t\<lparr>transfer_error := Some ''No previous slice available''\<rparr>, s, calls)
         else (case fetchAnnotations api calls prev of
             Inl err \<Rightarrow>
               (t\<lparr>transfer_isLoading := False,
                  transfer_error := Some (message_or err ''Failed to start transfer'')\<rparr>,
                s, calls @ [FetchAnnotations prev])
           | Inr [] \<Rightarrow>
               (t\<lparr>transfer_isLoading := False,
                  transfer_error := Some ''Previous slice has no annotations''\<rparr>,
                s, calls @ [FetchAnnotations prev])
           | Inr (first # others) \<Rightarrow>
               (case generateAndSegment api currentImageId existingAnnotations t (Some first)
                       (t\<lparr>transfer_error := None,
                          sourceAnnotations := first # others,
                          currentIndex := 0,
                          confirmedPreviews := [],
                          isActive := True\<rparr>,
                        s, calls @ [FetchAnnotations prev]) of
                  (t', s', calls') \<Rightarrow> (t'\<lparr>transfer_isLoading := False\<rparr>, s', calls'))))"

text \<open>
  The advance shared by \<open>confirmCurrent\<close> and \<open>skipCurrent\<close> (lines 167-175 and
  180-188): \<open>rendered\<close> is the state the callback closed over, \<open>t\<close> the state with the
  updates queued so far.
\<close>

definition advance ::
  "collaborator \<Rightarrow> image_id option \<Rightarrow> annotation list option \<Rightarrow> transfer_state \<Rightarrow>
   transfer \<Rightarrow> transfer" where
  "advance api currentImageId existingAnnotations rendered = (\<lambda>(t, s, calls).
     if int (currentIndex rendered) < int (length (sourceAnnotations rendered)) - 1 then
       let nextIndex = currentIndex rendered + 1
       in generateAndSegment api currentImageId existingAnnotations rendered
            (Some (sourceAnnotations rendered ! nextIndex))
            (t\<lparr>currentIndex := nextIndex\<rparr>, s, calls)
     else (t\<lparr>transferPoints := None\<rparr>, clearPreview s, calls))"

text \<open>\<open>confirmCurrent\<close> (lines 152-176).\<close>

definition confirmCurrent ::
  "collaborator \<Rightarrow> image_id option \<Rightarrow> annotation list option \<Rightarrow> transfer \<Rightarrow> transfer" where
  "confirmCurrent api currentImageId existingAnnotations = (\<lambda>(t, s, calls).
     case (preview s, currentAnnotation t) of
       (Some p, Some a) \<Rightarrow>
         advance api currentImageId existingAnnotations t
           (t\<lparr>confirmedPreviews := confirmedPreviews t @
                [\<lparr>bbox = bbox p, area = area p, polygon = polygon p,
                  classId = class_id a, className = class_name a, sourceId = ann_id a\<rparr>]\<rparr>,
            s, calls)
     | _ \<Rightarrow> (t, s, calls))"

definition skipCurrent ::
  "collaborator \<Rightarrow> image_id option \<Rightarrow> annotation list option \<Rightarrow> transfer \<Rightarrow> transfer" where
  "skipCurrent api currentImageId existingAnnotations = (\<lambda>(t, s, calls).
     advance api currentImageId existingAnnotations t (t, s, calls))"

text \<open>\<open>cancelTransfer\<close> (lines 206-214).\<close>

definition cancelTransfer :: "transfer_state \<times> sam_state \<Rightarrow> transfer_state \<times> sam_state" where
  "cancelTransfer = (\<lambda>(t, s).
     (t\<lparr>isActive := False, sourceAnnotations := [], currentIndex := 0,
        confirmedPreviews := [], transferPoints := None, transfer_error := None\<rparr>,
      clearPreview s))"

section \<open>App: committing the confirmed transfers\<close>

text \<open>
  The loop of \<open>handleSaveAllTransfers\<close> (lines 748-756): one \<open>saveAnnotation\<close> per
  confirmed preview, in order; the first rejection leaves the loop.
\<close>

fun saveAll ::
  "collaborator \<Rightarrow> image_id option \<Rightarrow> confirmed_preview list \<Rightarrow> store \<Rightarrow>
   (api_error + unit) \<times> store" where
  "saveAll api imageId [] store = (Inr (), store)"
| "saveAll api imageId (p # ps) store =
     (case saveAnnotation api imageId (polygon p) (bbox p) (area p) (classId p) (className p) store of
        (Inl err, store') \<Rightarrow> (Inl err, store')
      | (Inr _, store') \<Rightarrow> saveAll api imageId ps store')"

text \<open>
  \<open>handleSaveAllTransfers\<close> (lines 744-761): \<open>cancelTransfer\<close> runs only after the whole
  loop; a rejection is caught and logged to the console.
\<close>

definition handleSaveAllTransfers ::
  "collaborator \<Rightarrow> image_id option \<Rightarrow> annotations_state \<times> transfer_state \<times> sam_state \<times> api_call list \<Rightarrow>
   annotations_state \<times> transfer_state \<times> sam_state \<times> api_call list" where
  "handleSaveAllTransfers api selectedImageId = (\<lambda>(st, t, s, calls).
     if confirmedPreviews t = [] then (st, t, s, calls)
     else (case saveAll api selectedImageId (confirmedPreviews t) (st, calls) of
         (Inr _, st', calls') \<Rightarrow>
           (case cancelTransfer (t, s) of (t', s') \<Rightarrow> (st', t', s', calls'))
       | (Inl err, st', calls') \<Rightarrow> (st', t, s, calls')))"

text \<open>
  The request that the loop issues for a confirmed preview: \<open>createAnnotation\<close> with the
  polygon, bounding box and area of the preview and the class inherited from its source.
\<close>

definition commit_request :: "image_id option \<Rightarrow> confirmed_preview \<Rightarrow> api_call" where
  "commit_request imageId p =
     CreateAnnotation imageId
       \<lparr>bbox = bbox p, area = area p, class_id = classId p, class_name = className p,
        segmentation = polygon p\<rparr>"

section \<open>App: the debounced segmentation effect\<close>

text \<open>
  The browser's timers. \<open>setTimeout\<close> adds a timer to the table of pending timers and
  returns its identifier; every call makes a timer of its own. \<open>clearTimeout\<close> removes
  the timer with the given identifier, and nothing else does before the timer falls due.
  Time is a clock in milliseconds; a pending timer holds the time at which it falls due
  and the values its callback closed over (line 605).
\<close>

record pending_segment =
  due :: nat
  seg_imageId :: image_id
  seg_points :: "point list"
  seg_existingPolygons :: "segmentation list option"

text \<open>
  The state of the application that the effect of lines 595-609 reads and writes.
  \<open>effectCleanup\<close> is the cleanup function that the last run of the effect returned: it
  holds the \<open>debounceTimer\<close> of that run, and is missing when the run returned early.
\<close>

record app_state =
  now :: nat
  selectedImageId :: "image_id option"
  points :: "point list"
  shown_annotations :: "annotation list"
  timers :: "(nat \<times> pending_segment) list"
  nextTimerId :: nat
  effectCleanup :: "nat option"
  sam_hook :: sam_state
  issued :: "api_call list"

definition setTimeout ::
  "image_id \<Rightarrow> point list \<Rightarrow> segmentation list option \<Rightarrow> nat \<Rightarrow> app_state \<Rightarrow> nat \<times> app_state" where
  "setTimeout i pts ex delay a =
     (nextTimerId a,
      a\<lparr>timers := timers a @
           [(nextTimerId a,
             \<lparr>due = now a + delay, seg_imageId = i, seg_points = pts,
              seg_existingPolygons = ex\<rparr>)],
        nextTimerId := nextTimerId a + 1\<rparr>)"

definition clearTimeout :: "nat \<Rightarrow> app_state \<Rightarrow> app_state" where
  "clearTimeout timerId a = a\<lparr>timers := filter (\<lambda>(k, timer). k \<noteq> timerId) (timers a)\<rparr>"

text \<open>
  The effect (lines 595-609) as React runs it when \<open>selectedImageId\<close>, \<open>points\<close> or
  \<open>annotations\<close> changed: first the cleanup that the previous run returned, if it
  returned one, then the body, which either clears the preview and returns no cleanup, or
  sets a timer of 100 ms and returns the cleanup that clears this timer.
\<close>

definition segmentEffect :: "app_state \<Rightarrow> app_state" where
  "segmentEffect a =
     (let a1 = (case effectCleanup a of
                  None \<Rightarrow> a
                | Some debounceTimer \<Rightarrow> clearTimeout debounceTimer a)
      in case selectedImageId a1 of
           None \<Rightarrow> a1\<lparr>effectCleanup := None, sam_hook := clearPreview (sam_hook a1)\<rparr>
         | Some i \<Rightarrow>
             if i = [] \<or> points a1 = [] then
               a1\<lparr>effectCleanup := None, sam_hook := clearPreview (sam_hook a1)\<rparr>
             else
               (case setTimeout i (points a1) (Some (map segmentation (shown_annotations a1)))
                       100 a1 of
                  (debounceTimer, a2) \<Rightarrow> a2\<lparr>effectCleanup := Some debounceTimer\<rparr>))"

text \<open>\<open>handleAddPoint\<close> (lines 612-614) and the render that follows it.\<close>

definition handleAddPoint :: "point \<Rightarrow> app_state \<Rightarrow> app_state" where
  "handleAddPoint p a = segmentEffect (a\<lparr>points := points a @ [p]\<rparr>)"

text \<open>
  The callbacks of the timers that have fallen due, in the order in which the timers were
  set: each is one call of \<open>sam.segment\<close> with the values it closed over; a rejection is
  caught and logged to the console.
\<close>

fun fire :: "collaborator \<Rightarrow> pending_segment list \<Rightarrow> sam \<Rightarrow> sam" where
  "fire api [] s = s"
| "fire api (timer # others) s =
     fire api others
       (snd (segment api (seg_imageId timer) (seg_points timer) (seg_existingPolygons timer) s))"

text \<open>
  The passing of \<open>d\<close> milliseconds: every pending timer that has fallen due leaves the
  table and its callback runs.
\<close>

definition elapse :: "collaborator \<Rightarrow> nat \<Rightarrow> app_state \<Rightarrow> app_state" where
  "elapse api d a =
     (let a1 = a\<lparr>now := now a + d\<rparr>;
          ready = filter (\<lambda>(k, timer). due timer \<le> now a1) (timers a1);
          waiting = filter (\<lambda>(k, timer). \<not> due timer \<le> now a1) (timers a1)
      in case fire api (map snd ready) (sam_hook a1, issued a1) of
           (s', calls') \<Rightarrow> a1\<lparr>timers := waiting, sam_hook := s', issued := calls'\<rparr>)"

text \<open>
  A burst of point additions: each point is added and then the given number of
  milliseconds passes before the next event.
\<close>

fun burst :: "collaborator \<Rightarrow> (point \<times> nat) list \<Rightarrow> app_state \<Rightarrow> app_state" where
  "burst api [] a = a"
| "burst api ((p, d) # rest) a = burst api rest (elapse api d (handleAddPoint p a))"

text \<open>The \<open>segmentImage\<close> requests among a list of calls.\<close>

fun is_segmentImage :: "api_call \<Rightarrow> bool" where
  "is_segmentImage (SegmentImage i ps ex) = True"
| "is_segmentImage other = False"

section \<open>Reference values\<close>

text \<open>
  A backend that answers the first \<open>n\<close> calls with fixed values and rejects every later
  one with a network error, a square polygon, an annotation over it, and the initial
  states of the hooks.
\<close>

definition network_error :: api_error where
  "network_error = ApiError ''Network Error''"

definition scripted_backend ::
  "nat \<Rightarrow> annotation \<Rightarrow> annotation list \<Rightarrow> preview_result \<Rightarrow> points_data \<Rightarrow> collaborator" where
  "scripted_backend n a as p pd =
     \<lparr>fetchAnnotations = (\<lambda>calls _. if length calls < n then Inr as else Inl network_error),
      createAnnotation = (\<lambda>calls _ _. if length calls < n then Inr a else Inl network_error),
      updateAnnotationApi = (\<lambda>calls _ _. if length calls < n then Inr a else Inl network_error),
      deleteAnnotationApi = (\<lambda>calls _. if length calls < n then Inr () else Inl network_error),
      mergeAnnotationsApi =
        (\<lambda>calls _ _ _. if length calls < n then Inr a else Inl network_error),
      encodeImage = (\<lambda>calls _. if length calls < n then Inr () else Inl network_error),
      segmentImage = (\<lambda>calls _ _ _. if length calls < n then Inr p else Inl network_error),
      generateTransferPoints =
        (\<lambda>calls _ _ _ _. if length calls < n then Inr pd else Inl network_error)\<rparr>"

definition square :: "real \<Rightarrow> segmentation" where
  "square x = [[x, 0, x + 10, 0, x + 10, 10, x, 10]]"

definition cell :: "annotation_id \<Rightarrow> nat \<Rightarrow> real \<Rightarrow> annotation" where
  "cell i c x =
     \<lparr>bbox = [x, 0, 10, 10], area = 100, class_id = c, class_name = ''Endodermis cell'',
      segmentation = square x, ann_id = i\<rparr>"

definition preview_at :: "real \<Rightarrow> preview_result" where
  "preview_at x = \<lparr>bbox = [x, 0, 10, 10], area = 100, polygon = square x\<rparr>"

definition click :: "real \<Rightarrow> point" where
  "click x = \<lparr>pt_x = x, pt_y = 5, is_positive = True\<rparr>"

definition clicks :: points_data where
  "clicks = \<lparr>positive_points = [click 1, click 2], negative_points = [click 30]\<rparr>"

definition initial_annotations :: annotations_state where
  "initial_annotations =
     \<lparr>annotations = [], isLoading = False, error = None, undoStack = [], redoStack = []\<rparr>"

definition initial_sam :: sam_state where
  "initial_sam =
     \<lparr>isEncoding = False, isSegmenting = False, preview = None, sam_error = None,
      encodedImageRef = None\<rparr>"

definition initial_transfer :: transfer_state where
  "initial_transfer =
     \<lparr>settings = \<lparr>positivePoints = 2, negativePoints = 1\<rparr>, isActive = False,
      sourceAnnotations = [], currentIndex = 0, confirmedPreviews = [],
      transfer_isLoading = False, transfer_error = None, transferPoints = None\<rparr>"

text \<open>
  A store with two annotations, both created in this session, and one undone deletion
  waiting on the redo stack.
\<close>

definition busy_annotations :: annotations_state where
  "busy_annotations =
     \<lparr>annotations = [cell ''a1'' 1 0, cell ''a2'' 1 20], isLoading = False, error = None,
      undoStack = [Create (cell ''a1'' 1 0), Create (cell ''a2'' 1 20)],
      redoStack = [Delete (cell ''a0'' 3 40)]\<rparr>"

text \<open>
  Stated by the specification, for comparison with \<open>class_patch\<close>: the payload
  \<open>old.*\<close> of its inverse table, that is every field of the annotation.
\<close>

definition all_fields_patch :: "annotation \<Rightarrow> annotation_patch" where
  "all_fields_patch a =
     \<lparr>upd_class_id = Some (class_id a), upd_class_name = Some (class_name a),
      upd_segmentation = Some (segmentation a), upd_bbox = Some (bbox a),
      upd_area = Some (area a)\<rparr>"

text \<open>
  Transfer states over the two or three annotations of the previous slice: at the first
  annotation, at the only one, after one confirmation, and with every annotation confirmed.
\<close>

definition confirmed_at :: "annotation_id \<Rightarrow> nat \<Rightarrow> real \<Rightarrow> confirmed_preview" where
  "confirmed_at i c x =
     \<lparr>bbox = [x, 0, 10, 10], area = 100, polygon = square x,
      classId = c, className = ''Endodermis cell'', sourceId = i\<rparr>"

definition first_step :: transfer_state where
  "first_step =
     initial_transfer\<lparr>isActive := True, sourceAnnotations := [cell ''s1'' 3 0, cell ''s2'' 1 20]\<rparr>"

definition last_step :: transfer_state where
  "last_step = initial_transfer\<lparr>isActive := True, sourceAnnotations := [cell ''s1'' 3 0]\<rparr>"

definition midway :: transfer_state where
  "midway =
     initial_transfer\<lparr>isActive := True,
       sourceAnnotations := [cell ''s1'' 3 0, cell ''s2'' 1 20],
       currentIndex := 1,
       confirmedPreviews := [confirmed_at ''s1'' 3 2]\<rparr>"

definition all_confirmed :: transfer_state where
  "all_confirmed =
     initial_transfer\<lparr>isActive := True,
       sourceAnnotations := [cell ''s1'' 3 0, cell ''s2'' 1 20, cell ''s3'' 2 40],
       currentIndex := 2,
       confirmedPreviews :=
         [confirmed_at ''s1'' 3 2, confirmed_at ''s2'' 1 22, confirmed_at ''s3'' 2 42]\<rparr>"

text \<open>The image list of two slices, and a session on the first one with no point yet.\<close>

definition two_slices :: "image_entry list" where
  "two_slices = [\<lparr>img_id = ''slice_0001''\<rparr>, \<lparr>img_id = ''slice_0002''\<rparr>]"

definition rapid_session :: app_state where
  "rapid_session =
     \<lparr>now = 0, selectedImageId = Some ''slice_0001'', points = [],
      shown_annotations = [cell ''a1'' 1 40], timers = [], nextTimerId = 0,
      effectCleanup = None, sam_hook = initial_sam, issued = []\<rparr>"

section \<open>The action log\<close>

subsection \<open>Undo and redo of an update\<close>

text \<open>
  C1, as the code has it. For an \<open>update\<close> record on top of the undo stack, \<open>undo\<close>
  issues exactly one request, \<open>update(new.id, {class_id: old.class_id, class_name:
  old.class_name})\<close>: the class of the old annotation is restored, its segmentation,
  bounding box and area are not sent. When the request succeeds, the annotation with the
  id of \<open>new\<close> is replaced by the answer and the record moves to the redo stack. \<open>redo\<close>
  is symmetric, with \<open>update(old.id, {class_id: new.class_id, class_name:
  new.class_name})\<close>. Both requests are computed from the record alone, whatever the list
  of annotations holds.
\<close>

theorem undo_update_sends_class_only:
  "(undoStack st \<noteq> [] \<and> last (undoStack st) = Update old new \<longrightarrow>
      snd (undo api imageId (st, calls)) =
        calls @ [UpdateAnnotation (ann_id new)
          \<lparr>upd_class_id = Some (class_id old), upd_class_name = Some (class_name old),
           upd_segmentation = None, upd_bbox = None, upd_area = None\<rparr>] \<and>
      (\<forall>updated. updateAnnotationApi api calls (ann_id new) (class_patch old) = Inr updated \<longrightarrow>
         fst (undo api imageId (st, calls)) =
           st\<lparr>undoStack := butlast (undoStack st),
              annotations := map (\<lambda>a. if ann_id a = ann_id new then updated else a) (annotations st),
              redoStack := redoStack st @ [Update old new]\<rparr>))
   \<and> (redoStack st \<noteq> [] \<and> last (redoStack st) = Update old new \<longrightarrow>
      snd (redo api imageId (st, calls)) =
        calls @ [UpdateAnnotation (ann_id old)
          \<lparr>upd_class_id = Some (class_id new), upd_class_name = Some (class_name new),
           upd_segmentation = None, upd_bbox = None, upd_area = None\<rparr>] \<and>
      (\<forall>updated. updateAnnotationApi api calls (ann_id old) (class_patch new) = Inr updated \<longrightarrow>
         fst (redo api imageId (st, calls)) =
           st\<lparr>redoStack := butlast (redoStack st),
              annotations := map (\<lambda>a. if ann_id a = ann_id old then updated else a) (annotations st),
              undoStack := undoStack st @ [Update old new]\<rparr>))"
  by (auto simp: undo_def redo_def class_patch_def Let_def split: sum.splits)

text \<open>
  The theorem at an update that changed the class from 1 to 2 and moved the polygon, undone
  and redone.
\<close>

theorem undo_update_sends_class_only_witness:
  "snd (undo (scripted_backend 1 (cell ''a1'' 1 0) [] (preview_at 0) clicks) (Some ''slice_0001'')
          (initial_annotations\<lparr>annotations := [cell ''a1'' 2 5],
             undoStack := [Update (cell ''a1'' 1 0) (cell ''a1'' 2 5)]\<rparr>, []))
     = [UpdateAnnotation ''a1''
          \<lparr>upd_class_id = Some 1, upd_class_name = Some ''Endodermis cell'',
           upd_segmentation = None, upd_bbox = None, upd_area = None\<rparr>]
   \<and> snd (redo (scripted_backend 1 (cell ''a1'' 2 5) [] (preview_at 0) clicks) (Some ''slice_0001'')
          (initial_annotations\<lparr>annotations := [cell ''a1'' 1 0],
             redoStack := [Update (cell ''a1'' 1 0) (cell ''a1'' 2 5)]\<rparr>, []))
     = [UpdateAnnotation ''a1''
          \<lparr>upd_class_id = Some 2, upd_class_name = Some ''Endodermis cell'',
           upd_segmentation = None, upd_bbox = None, upd_area = None\<rparr>]"
  using undo_update_sends_class_only
    [of "initial_annotations\<lparr>annotations := [cell ''a1'' 2 5],
             undoStack := [Update (cell ''a1'' 1 0) (cell ''a1'' 2 5)]\<rparr>"
        "cell ''a1'' 1 0" "cell ''a1'' 2 5"
        "scripted_backend 1 (cell ''a1'' 1 0) [] (preview_at 0) clicks" "Some ''slice_0001''" "[]"]
    undo_update_sends_class_only
    [of "initial_annotations\<lparr>annotations := [cell ''a1'' 1 0],
             redoStack := [Update (cell ''a1'' 1 0) (cell ''a1'' 2 5)]\<rparr>"
        "cell ''a1'' 1 0" "cell ''a1'' 2 5"
        "scripted_backend 1 (cell ''a1'' 2 5) [] (preview_at 0) clicks" "Some ''slice_0001''" "[]"]
  by (simp add: cell_def initial_annotations_def)

text \<open>
  C1 as the specification states it, \<open>update(new.id, old.*)\<close> with all five fields, fails
  on that update: the request of \<open>undo\<close> carries no segmentation, bounding box or area.
\<close>

theorem undo_update_counterexample:
  "snd (undo (scripted_backend 1 (cell ''a1'' 1 0) [] (preview_at 0) clicks) (Some ''slice_0001'')
          (initial_annotations\<lparr>annotations := [cell ''a1'' 2 5],
             undoStack := [Update (cell ''a1'' 1 0) (cell ''a1'' 2 5)]\<rparr>, []))
     = [UpdateAnnotation ''a1''
          \<lparr>upd_class_id = Some 1, upd_class_name = Some ''Endodermis cell'',
           upd_segmentation = None, upd_bbox = None, upd_area = None\<rparr>]
   \<and> snd (undo (scripted_backend 1 (cell ''a1'' 1 0) [] (preview_at 0) clicks) (Some ''slice_0001'')
          (initial_annotations\<lparr>annotations := [cell ''a1'' 2 5],
             undoStack := [Update (cell ''a1'' 1 0) (cell ''a1'' 2 5)]\<rparr>, []))
     \<noteq> [UpdateAnnotation ''a1'' (all_fields_patch (cell ''a1'' 1 0))]"
  by (simp add: undo_def scripted_backend_def class_patch_def all_fields_patch_def cell_def
      initial_annotations_def Let_def)

subsection \<open>Forward operations\<close>

text \<open>
  C2. Whenever the delegated call of \<open>saveAnnotation\<close>, \<open>deleteAnnotation\<close>,
  \<open>updateAnnotation\<close> or \<open>mergeAnnotations\<close> is issued and succeeds, the redo stack is
  empty afterwards, whatever it held, and the undo stack is the previous one with exactly
  one record on top: \<open>Create\<close> of the new annotation, \<open>Delete\<close> of the removed one,
  \<open>Update\<close> of the old and the new one, \<open>Merge\<close> of the selected ones and the merged one.
\<close>

theorem successful_mutation_pushes_one_record:
  "(\<not> unset imageId \<and>
      createAnnotation api calls imageId
        \<lparr>bbox = bb, area = ar, class_id = cid, class_name = cname, segmentation = seg\<rparr> = Inr a \<longrightarrow>
      (case saveAnnotation api imageId seg bb ar cid cname (st, calls) of
         (r, st', calls') \<Rightarrow>
           r = Inr (Some a) \<and> redoStack st' = [] \<and> undoStack st' = undoStack st @ [Create a]))
   \<and> (find (\<lambda>x. ann_id x = aid) (annotations st) = Some old \<and>
      deleteAnnotationApi api calls aid = Inr () \<longrightarrow>
      (case deleteAnnotation api aid (st, calls) of
         (r, st', calls') \<Rightarrow>
           r = Inr None \<and> redoStack st' = [] \<and> undoStack st' = undoStack st @ [Delete old]))
   \<and> (find (\<lambda>x. ann_id x = aid) (annotations st) = Some old \<and>
      updateAnnotationApi api calls aid data = Inr updated \<longrightarrow>
      (case updateAnnotation api aid data (st, calls) of
         (r, st', calls') \<Rightarrow>
           r = Inr (Some updated) \<and> redoStack st' = [] \<and>
           undoStack st' = undoStack st @ [Update old updated]))
   \<and> (\<not> unset imageId \<and> 2 \<le> length ids \<and>
      mergeAnnotationsApi api calls ids cid cname = Inr merged \<longrightarrow>
      (case mergeAnnotations api imageId ids cid cname (st, calls) of
         (r, st', calls') \<Rightarrow>
           r = Inr (Some merged) \<and> redoStack st' = [] \<and>
           undoStack st' =
             undoStack st @ [Merge (filter (\<lambda>x. ann_id x \<in> set ids) (annotations st)) merged]))"
  by (simp add: saveAnnotation_def deleteAnnotation_def updateAnnotation_def mergeAnnotations_def)

text \<open>The four operations on a store whose redo stack is not empty.\<close>

theorem successful_mutation_pushes_one_record_witness:
  "(case saveAnnotation (scripted_backend 1 (cell ''a3'' 2 60) [] (preview_at 0) clicks)
           (Some ''slice_0001'') (square 60) [60, 0, 10, 10] 100 2 ''Endodermis cell''
           (busy_annotations, []) of
      (r, st', calls') \<Rightarrow>
        r = Inr (Some (cell ''a3'' 2 60)) \<and> redoStack st' = [] \<and>
        undoStack st' =
          [Create (cell ''a1'' 1 0), Create (cell ''a2'' 1 20), Create (cell ''a3'' 2 60)])
   \<and> (case deleteAnnotation (scripted_backend 1 (cell ''a3'' 2 60) [] (preview_at 0) clicks) ''a2''
           (busy_annotations, []) of
      (r, st', calls') \<Rightarrow>
        r = Inr None \<and> redoStack st' = [] \<and>
        undoStack st' =
          [Create (cell ''a1'' 1 0), Create (cell ''a2'' 1 20), Delete (cell ''a2'' 1 20)])
   \<and> (case updateAnnotation (scripted_backend 1 (cell ''a2'' 4 20) [] (preview_at 0) clicks) ''a2''
           \<lparr>upd_class_id = Some 4, upd_class_name = None, upd_segmentation = None,
            upd_bbox = None, upd_area = None\<rparr>
           (busy_annotations, []) of
      (r, st', calls') \<Rightarrow>
        r = Inr (Some (cell ''a2'' 4 20)) \<and> redoStack st' = [] \<and>
        undoStack st' =
          [Create (cell ''a1'' 1 0), Create (cell ''a2'' 1 20),
           Update (cell ''a2'' 1 20) (cell ''a2'' 4 20)])
   \<and> (case mergeAnnotations (scripted_backend 1 (cell ''a3'' 2 0) [] (preview_at 0) clicks)
           (Some ''slice_0001'') [''a1'', ''a2''] 2 ''Endodermis cell''
           (busy_annotations, []) of
      (r, st', calls') \<Rightarrow>
        r = Inr (Some (cell ''a3'' 2 0)) \<and> redoStack st' = [] \<and>
        undoStack st' =
          [Create (cell ''a1'' 1 0), Create (cell ''a2'' 1 20),
           Merge [cell ''a1'' 1 0, cell ''a2'' 1 20] (cell ''a3'' 2 0)])"
  using successful_mutation_pushes_one_record
      [of "Some ''slice_0001''" "scripted_backend 1 (cell ''a3'' 2 60) [] (preview_at 0) clicks" "[]"
        "[60, 0, 10, 10]" 100 2 "''Endodermis cell''" "square 60" "cell ''a3'' 2 60"
        busy_annotations "''a2''" "cell ''a2'' 1 20"]
    successful_mutation_pushes_one_record
      [of _ "scripted_backend 1 (cell ''a2'' 4 20) [] (preview_at 0) clicks" "[]"
        _ _ _ _ _ _ busy_annotations "''a2''" "cell ''a2'' 1 20"
        "\<lparr>upd_class_id = Some 4, upd_class_name = None, upd_segmentation = None,
            upd_bbox = None, upd_area = None\<rparr>" "cell ''a2'' 4 20"]
    successful_mutation_pushes_one_record
      [of "Some ''slice_0001''" "scripted_backend 1 (cell ''a3'' 2 0) [] (preview_at 0) clicks" "[]"
        _ _ 2 "''Endodermis cell''" _ _ busy_annotations _ _ _ _ "[''a1'', ''a2'']" "cell ''a3'' 2 0"]
  by (simp add: scripted_backend_def busy_annotations_def cell_def)



text \<open>
  C5, as the code has it. With \<open>imageId\<close> unset (\<open>null\<close> or the empty string),
  \<open>saveAnnotation\<close> resolves with \<open>null\<close>: no request is issued, and the state,
  \<open>error\<close> included, is unchanged. Nothing is propagated to the caller.
\<close>

theorem save_without_image_is_silent:
  "unset imageId \<Longrightarrow>
     saveAnnotation api imageId seg bb ar cid cname (st, calls) = (Inr None, st, calls)"
  by (simp add: saveAnnotation_def)

theorem save_without_image_is_silent_witness:
  "saveAnnotation (scripted_backend 1 (cell ''a3'' 2 60) [] (preview_at 0) clicks)
     None (square 60) [60, 0, 10, 10] 100 2 ''Endodermis cell'' (busy_annotations, [])
   = (Inr None, busy_annotations, [])
   \<and> saveAnnotation (scripted_backend 1 (cell ''a3'' 2 60) [] (preview_at 0) clicks)
     (Some []) (square 60) [60, 0, 10, 10] 100 2 ''Endodermis cell'' (busy_annotations, [])
   = (Inr None, busy_annotations, [])"
  using save_without_image_is_silent [of None] save_without_image_is_silent [of "Some []"]
  by simp

text \<open>
  C5 as the specification states it, the operation fails by propagating an error, does not
  hold: without an image the promise is not rejected and no error message is set.
\<close>

theorem save_without_image_counterexample:
  "\<not> isl (fst (saveAnnotation (scripted_backend 1 (cell ''a3'' 2 60) [] (preview_at 0) clicks)
                None (square 60) [60, 0, 10, 10] 100 2 ''Endodermis cell''
                (busy_annotations, [])))
   \<and> error (fst (snd (saveAnnotation
                (scripted_backend 1 (cell ''a3'' 2 60) [] (preview_at 0) clicks)
                None (square 60) [60, 0, 10, 10] 100 2 ''Endodermis cell''
                (busy_annotations, [])))) = None"
  by (simp add: saveAnnotation_def busy_annotations_def)

subsection \<open>Change of the active slice\<close>

text \<open>
  C3. The effect on a change of \<open>imageId\<close> empties both stacks only after a successful
  load. On the store with two records to undo and one to redo, a load of
  \<open>slice_0002\<close> that the backend rejects leaves both stacks as they were, and so does a
  change to no image.
\<close>

theorem failed_or_empty_load_keeps_stacks:
  "undoStack (fst (loadAnnotations (scripted_backend 0 (cell ''a3'' 2 60) [] (preview_at 0) clicks)
                    (Some ''slice_0002'') (busy_annotations, [])))
     = [Create (cell ''a1'' 1 0), Create (cell ''a2'' 1 20)]
   \<and> redoStack (fst (loadAnnotations (scripted_backend 0 (cell ''a3'' 2 60) [] (preview_at 0) clicks)
                    (Some ''slice_0002'') (busy_annotations, [])))
     = [Delete (cell ''a0'' 3 40)]
   \<and> undoStack (fst (loadAnnotations (scripted_backend 1 (cell ''a3'' 2 60) [] (preview_at 0) clicks)
                    None (busy_annotations, [])))
     = [Create (cell ''a1'' 1 0), Create (cell ''a2'' 1 20)]
   \<and> redoStack (fst (loadAnnotations (scripted_backend 1 (cell ''a3'' 2 60) [] (preview_at 0) clicks)
                    None (busy_annotations, [])))
     = [Delete (cell ''a0'' 3 40)]"
  by (simp add: loadAnnotations_def scripted_backend_def busy_annotations_def)

text \<open>After a successful load both stacks are empty and the list is the one loaded.\<close>

lemma successful_load_resets_stacks:
  "\<not> unset imageId \<Longrightarrow> fetchAnnotations api calls (the imageId) = Inr data \<Longrightarrow>
     undoStack (fst (loadAnnotations api imageId (st, calls))) = [] \<and>
     redoStack (fst (loadAnnotations api imageId (st, calls))) = [] \<and>
     annotations (fst (loadAnnotations api imageId (st, calls))) = data"
  by (cases imageId) (simp_all add: loadAnnotations_def)

section \<open>The transfer workflow\<close>

text \<open>
  \<open>generateAndSegment\<close> changes neither the progress of the transfer nor its activity.
\<close>

lemma generateAndSegment_keeps_progress:
  "generateAndSegment api cur ex rendered ann (t, s, calls) = (t', s', calls') \<Longrightarrow>
     confirmedPreviews t' = confirmedPreviews t \<and> currentIndex t' = currentIndex t \<and>
     sourceAnnotations t' = sourceAnnotations t \<and> isActive t' = isActive t"
  by (auto simp: generateAndSegment_def Let_def
      split: option.splits sum.splits prod.splits if_splits)

text \<open>
  With a non-empty list of points and the image already encoded, or encoded successfully
  now, \<open>segment\<close> issues exactly one \<open>segmentImage\<close> request, with the arguments it was
  given.
\<close>

lemma segment_issues_one_request:
  "pts \<noteq> [] \<Longrightarrow> encodedImageRef s = Some i \<or> encodeImage api calls i = Inr () \<Longrightarrow>
     snd (snd (segment api i pts ex (s, calls))) =
       calls @ (if encodedImageRef s = Some i then [] else [EncodeImage i])
             @ [SegmentImage i pts ex]"
  by (auto simp: segment_def encode_def Let_def split: sum.splits prod.splits)

text \<open>
  When the image is not encoded and \<open>encodeImage\<close> is rejected, \<open>segment\<close> stops
  there: the only request it issues is the one to encode, and it rejects with that error.
\<close>

lemma segment_stops_at_failed_encoding:
  "pts \<noteq> [] \<Longrightarrow> encodedImageRef s \<noteq> Some i \<Longrightarrow> encodeImage api calls i = Inl e \<Longrightarrow>
     fst (segment api i pts ex (s, calls)) = Inl e \<and>
     snd (snd (segment api i pts ex (s, calls))) = calls @ [EncodeImage i]"
  by (simp add: segment_def encode_def Let_def)

subsection \<open>Confirming the current preview\<close>

text \<open>
  C6, as the code has it. In a transfer state with a preview and a current source
  annotation, \<open>confirmCurrent\<close> appends exactly one entry to \<open>confirmedPreviews\<close>: the
  fields of the preview with \<open>classId\<close>, \<open>className\<close> and \<open>sourceId\<close> copied from the
  current source annotation. It advances \<open>currentIndex\<close> by one only while a further
  source annotation remains (\<open>currentIndex < sourceAnnotations.length - 1\<close>); at the last
  one \<open>currentIndex\<close> stays where it is, the preview and the transfer points are cleared
  and no request is issued. Without a preview it changes nothing.
\<close>

theorem confirmCurrent_appends_and_advances:
  "(preview s = Some p \<and> currentAnnotation t = Some a \<longrightarrow>
      (case confirmCurrent api cur ex (t, s, calls) of
         (t', s', calls') \<Rightarrow>
           confirmedPreviews t' = confirmedPreviews t @
             [\<lparr>bbox = bbox p, area = area p, polygon = polygon p,
               classId = class_id a, className = class_name a, sourceId = ann_id a\<rparr>] \<and>
           (if int (currentIndex t) < int (length (sourceAnnotations t)) - 1
            then currentIndex t' = currentIndex t + 1
            else currentIndex t' = currentIndex t \<and> preview s' = None \<and>
                 transferPoints t' = None \<and> calls' = calls)))
   \<and> (preview s = None \<longrightarrow> confirmCurrent api cur ex (t, s, calls) = (t, s, calls))"
proof (rule conjI)
  show "preview s = None \<longrightarrow> confirmCurrent api cur ex (t, s, calls) = (t, s, calls)"
    by (simp add: confirmCurrent_def)
  show "preview s = Some p \<and> currentAnnotation t = Some a \<longrightarrow>
      (case confirmCurrent api cur ex (t, s, calls) of
         (t', s', calls') \<Rightarrow>
           confirmedPreviews t' = confirmedPreviews t @
             [\<lparr>bbox = bbox p, area = area p, polygon = polygon p,
               classId = class_id a, className = class_name a, sourceId = ann_id a\<rparr>] \<and>
           (if int (currentIndex t) < int (length (sourceAnnotations t)) - 1
            then currentIndex t' = currentIndex t + 1
            else currentIndex t' = currentIndex t \<and> preview s' = None \<and>
                 transferPoints t' = None \<and> calls' = calls))"
  proof (intro impI, elim conjE)
    assume h: "preview s = Some p" "currentAnnotation t = Some a"
    show "(case confirmCurrent api cur ex (t, s, calls) of
         (t', s', calls') \<Rightarrow>
           confirmedPreviews t' = confirmedPreviews t @
             [\<lparr>bbox = bbox p, area = area p, polygon = polygon p,
               classId = class_id a, className = class_name a, sourceId = ann_id a\<rparr>] \<and>
           (if int (currentIndex t) < int (length (sourceAnnotations t)) - 1
            then currentIndex t' = currentIndex t + 1
            else currentIndex t' = currentIndex t \<and> preview s' = None \<and>
                 transferPoints t' = None \<and> calls' = calls))"
    proof (cases "int (currentIndex t) < int (length (sourceAnnotations t)) - 1")
      case True
      obtain t' s' calls' where r: "confirmCurrent api cur ex (t, s, calls) = (t', s', calls')"
        by (cases "confirmCurrent api cur ex (t, s, calls)") auto
      with h True have "generateAndSegment api cur ex t
            (Some (sourceAnnotations t ! (currentIndex t + 1)))
            (t\<lparr>confirmedPreviews := confirmedPreviews t @
                  [\<lparr>bbox = bbox p, area = area p, polygon = polygon p,
                    classId = class_id a, className = class_name a, sourceId = ann_id a\<rparr>],
                currentIndex := currentIndex t + 1\<rparr>, s, calls) = (t', s', calls')"
        by (simp add: confirmCurrent_def advance_def)
      from generateAndSegment_keeps_progress [OF this] True r show ?thesis by simp
    next
      case False
      with h show ?thesis
        by (simp add: confirmCurrent_def advance_def clearPreview_def)
    qed
  qed
qed

text \<open>
  The theorem at the first of two source annotations, at the only source annotation, and
  without a preview.
\<close>

theorem confirmCurrent_appends_and_advances_witness:
  "(case confirmCurrent (scripted_backend 9 (cell ''a1'' 1 0) [] (preview_at 0) clicks)
           (Some ''slice_0002'') (Some [])
           (first_step, initial_sam\<lparr>preview := Some (preview_at 2)\<rparr>, []) of
      (t', s', calls') \<Rightarrow>
        confirmedPreviews t' =
          [\<lparr>bbox = [2, 0, 10, 10], area = 100, polygon = square 2,
            classId = 3, className = ''Endodermis cell'', sourceId = ''s1''\<rparr>] \<and>
        currentIndex t' = 1)
   \<and> (case confirmCurrent (scripted_backend 9 (cell ''a1'' 1 0) [] (preview_at 0) clicks)
           (Some ''slice_0002'') (Some [])
           (last_step, initial_sam\<lparr>preview := Some (preview_at 2)\<rparr>, []) of
      (t', s', calls') \<Rightarrow>
        confirmedPreviews t' =
          [\<lparr>bbox = [2, 0, 10, 10], area = 100, polygon = square 2,
            classId = 3, className = ''Endodermis cell'', sourceId = ''s1''\<rparr>] \<and>
        currentIndex t' = 0 \<and> preview s' = None \<and> transferPoints t' = None \<and> calls' = [])
   \<and> confirmCurrent (scripted_backend 9 (cell ''a1'' 1 0) [] (preview_at 0) clicks)
           (Some ''slice_0002'') (Some []) (first_step, initial_sam, [])
      = (first_step, initial_sam, [])"
  using confirmCurrent_appends_and_advances
      [where s = "initial_sam\<lparr>preview := Some (preview_at 2)\<rparr>" and p = "preview_at 2"
         and t = first_step and a = "cell ''s1'' 3 0"
         and api = "scripted_backend 9 (cell ''a1'' 1 0) [] (preview_at 0) clicks"
         and cur = "Some ''slice_0002''" and ex = "Some []" and calls = "[]"]
    confirmCurrent_appends_and_advances
      [where s = "initial_sam\<lparr>preview := Some (preview_at 2)\<rparr>" and p = "preview_at 2"
         and t = last_step and a = "cell ''s1'' 3 0"
         and api = "scripted_backend 9 (cell ''a1'' 1 0) [] (preview_at 0) clicks"
         and cur = "Some ''slice_0002''" and ex = "Some []" and calls = "[]"]
    confirmCurrent_appends_and_advances
      [where s = initial_sam and t = first_step
         and api = "scripted_backend 9 (cell ''a1'' 1 0) [] (preview_at 0) clicks"
         and cur = "Some ''slice_0002''" and ex = "Some []" and calls = "[]"]
  by (simp add: currentAnnotation_def first_step_def last_step_def initial_transfer_def
      initial_sam_def preview_at_def cell_def)

text \<open>
  C6 as the specification states it, the index advances also at the last source annotation,
  fails with one source annotation: after the confirmation \<open>currentIndex\<close> is still 0.
\<close>

theorem confirmCurrent_counterexample:
  "currentAnnotation last_step = Some (cell ''s1'' 3 0)
   \<and> currentIndex (fst (confirmCurrent
        (scripted_backend 9 (cell ''a1'' 1 0) [] (preview_at 0) clicks) (Some ''slice_0002'')
        (Some []) (last_step, initial_sam\<lparr>preview := Some (preview_at 2)\<rparr>, []))) = 0
   \<and> currentIndex (fst (confirmCurrent
        (scripted_backend 9 (cell ''a1'' 1 0) [] (preview_at 0) clicks) (Some ''slice_0002'')
        (Some []) (last_step, initial_sam\<lparr>preview := Some (preview_at 2)\<rparr>, [])))
      \<noteq> currentIndex last_step + 1"
  by (simp add: confirmCurrent_def advance_def currentAnnotation_def last_step_def
      initial_transfer_def initial_sam_def clearPreview_def)

subsection \<open>Starting a transfer\<close>

text \<open>
  C7, as the code has it. The flag \<open>canStartTransfer\<close> holds exactly when a previous slice
  exists and the workflow is not active; it is the caller that consults it.
  \<open>startTransfer\<close> itself checks the previous slice only. Without one it sets the error
  \<open>No previous slice available\<close>, issues no request and leaves the rest of the state,
  \<open>isActive\<close> included, as it was. With one whose annotations load and are not empty it
  starts the transfer, also when one is already active: \<open>sourceAnnotations\<close> is the list
  loaded, \<open>currentIndex\<close> is 0 and \<open>confirmedPreviews\<close> is empty.
\<close>

theorem startTransfer_checks_previous_slice_only:
  "canStartTransfer cur images t = (\<not> unset (previousImageId cur images) \<and> \<not> isActive t)
   \<and> (unset (previousImageId cur images) \<longrightarrow>
        startTransfer api cur images ex (t, s, calls) =
          (t\<lparr>transfer_error := Some ''No previous slice available''\<rparr>, s, calls))
   \<and> (previousImageId cur images = Some prev \<and> prev \<noteq> [] \<and>
        fetchAnnotations api calls prev = Inr (first # others) \<longrightarrow>
        (case startTransfer api cur images ex (t, s, calls) of
           (t', s', calls') \<Rightarrow>
             isActive t' \<and> sourceAnnotations t' = first # others \<and> currentIndex t' = 0 \<and>
             confirmedPreviews t' = []))"
proof (intro conjI impI)
  show "canStartTransfer cur images t = (\<not> unset (previousImageId cur images) \<and> \<not> isActive t)"
    by (simp add: canStartTransfer_def)
  show "startTransfer api cur images ex (t, s, calls) =
          (t\<lparr>transfer_error := Some ''No previous slice available''\<rparr>, s, calls)"
    if "unset (previousImageId cur images)"
    using that by (cases "previousImageId cur images") (simp_all add: startTransfer_def)
  show "(case startTransfer api cur images ex (t, s, calls) of
           (t', s', calls') \<Rightarrow>
             isActive t' \<and> sourceAnnotations t' = first # others \<and> currentIndex t' = 0 \<and>
             confirmedPreviews t' = [])"
    if h: "previousImageId cur images = Some prev \<and> prev \<noteq> [] \<and>
        fetchAnnotations api calls prev = Inr (first # others)"
  proof -
    obtain t1 s1 calls1 where g: "generateAndSegment api cur ex t (Some first)
         (t\<lparr>transfer_error := None, sourceAnnotations := first # others, currentIndex := 0,
            confirmedPreviews := [], isActive := True\<rparr>,
          s, calls @ [FetchAnnotations prev]) = (t1, s1, calls1)"
      by (metis prod_cases3)
    from h g have "startTransfer api cur images ex (t, s, calls) =
        (t1\<lparr>transfer_isLoading := False\<rparr>, s1, calls1)"
      by (simp add: startTransfer_def)
    with generateAndSegment_keeps_progress [OF g] show ?thesis by simp
  qed
qed

lemma previous_of_second: "previousImageId (Some ''slice_0002'') two_slices = Some ''slice_0001''"
  by (simp add: previousImageId_def two_slices_def)

lemma previous_of_first: "previousImageId (Some ''slice_0001'') two_slices = None"
  by (simp add: previousImageId_def two_slices_def)

text \<open>
  The theorem on the second slice (idle and midway through a transfer) and on the first
  slice, which has no previous one.
\<close>

theorem startTransfer_checks_previous_slice_only_witness:
  "canStartTransfer (Some ''slice_0002'') two_slices initial_transfer
   \<and> \<not> canStartTransfer (Some ''slice_0002'') two_slices midway
   \<and> startTransfer (scripted_backend 9 (cell ''a1'' 1 0) [cell ''s3'' 2 40] (preview_at 0) clicks)
        (Some ''slice_0001'') two_slices (Some []) (initial_transfer, initial_sam, [])
      = (initial_transfer\<lparr>transfer_error := Some ''No previous slice available''\<rparr>,
         initial_sam, [])
   \<and> (case startTransfer
             (scripted_backend 9 (cell ''a1'' 1 0) [cell ''s3'' 2 40] (preview_at 0) clicks)
             (Some ''slice_0002'') two_slices (Some []) (midway, initial_sam, []) of
        (t', s', calls') \<Rightarrow>
          isActive t' \<and> sourceAnnotations t' = [cell ''s3'' 2 40] \<and> currentIndex t' = 0 \<and>
          confirmedPreviews t' = [])"
  using startTransfer_checks_previous_slice_only
      [where cur = "Some ''slice_0002''" and images = two_slices and t = initial_transfer]
    startTransfer_checks_previous_slice_only
      [where cur = "Some ''slice_0001''" and images = two_slices and t = initial_transfer
         and api = "scripted_backend 9 (cell ''a1'' 1 0) [cell ''s3'' 2 40] (preview_at 0) clicks"
         and ex = "Some []" and s = initial_sam and calls = "[]"]
    startTransfer_checks_previous_slice_only
      [where cur = "Some ''slice_0002''" and images = two_slices and t = midway
         and api = "scripted_backend 9 (cell ''a1'' 1 0) [cell ''s3'' 2 40] (preview_at 0) clicks"
         and ex = "Some []" and s = initial_sam and calls = "[]"
         and prev = "''slice_0001''" and first = "cell ''s3'' 2 40" and others = "[]"]
  by (simp add: previous_of_second previous_of_first scripted_backend_def midway_def
      initial_transfer_def)

text \<open>
  C7 as the specification states it, an invocation while active does not restart the
  transfer, fails midway through a transfer of two annotations with one confirmed: after
  \<open>startTransfer\<close> the source annotations are the three just loaded, the index is back
  at 0 and the confirmed preview is gone.
\<close>

theorem startTransfer_counterexample:
  "isActive midway
   \<and> sourceAnnotations (fst (startTransfer
        (scripted_backend 9 (cell ''a1'' 1 0) [cell ''s1'' 3 0, cell ''s2'' 1 20, cell ''s3'' 2 40]
           (preview_at 0) clicks)
        (Some ''slice_0002'') two_slices (Some []) (midway, initial_sam, [])))
      \<noteq> sourceAnnotations midway
   \<and> currentIndex (fst (startTransfer
        (scripted_backend 9 (cell ''a1'' 1 0) [cell ''s1'' 3 0, cell ''s2'' 1 20, cell ''s3'' 2 40]
           (preview_at 0) clicks)
        (Some ''slice_0002'') two_slices (Some []) (midway, initial_sam, [])))
      \<noteq> currentIndex midway
   \<and> confirmedPreviews (fst (startTransfer
        (scripted_backend 9 (cell ''a1'' 1 0) [cell ''s1'' 3 0, cell ''s2'' 1 20, cell ''s3'' 2 40]
           (preview_at 0) clicks)
        (Some ''slice_0002'') two_slices (Some []) (midway, initial_sam, [])))
      \<noteq> confirmedPreviews midway"
  by (simp add: startTransfer_def previous_of_second scripted_backend_def generateAndSegment_def
      segment_def encode_def existingPolygons_def midway_def initial_transfer_def initial_sam_def
      clicks_def Let_def)

subsection \<open>The exclusion polygons of a transfer step\<close>

text \<open>
  What the callback computes from the values it closed over. Once the points are
  generated, \<open>generateAndSegment\<close> leaves the orchestrator and the call log as
  \<open>segment\<close> does when it is given the generated points and, as \<open>existingPolygons\<close>,
  \<open>null\<close> if the captured lists of existing annotations and of confirmed previews are
  both empty, else the segmentations of the captured annotations followed by the polygons
  of the captured previews. The captured previews are those of the render that created
  the callback, not those of the state it updates.
\<close>

lemma generateAndSegment_excludes_captured_previews:
  "i \<noteq> [] \<and>
   generateTransferPoints api calls (segmentation a) (bbox a)
     (positivePoints (settings rendered)) (negativePoints (settings rendered)) = Inr pd \<longrightarrow>
   snd (generateAndSegment api (Some i) ex rendered (Some a) (t, s, calls)) =
     snd (segment api i (positive_points pd @ negative_points pd)
            (if (ex = None \<or> ex = Some []) \<and> confirmedPreviews rendered = [] then None
             else Some ((case ex of None \<Rightarrow> [] | Some as \<Rightarrow> map segmentation as)
                        @ map polygon (confirmedPreviews rendered)))
            (s, calls @ [GenerateTransferPoints (segmentation a) (bbox a)
                           (positivePoints (settings rendered))
                           (negativePoints (settings rendered))]))
   \<and> (positive_points pd @ negative_points pd \<noteq> [] \<and> encodedImageRef s = Some i \<longrightarrow>
        snd (snd (generateAndSegment api (Some i) ex rendered (Some a) (t, s, calls))) =
          calls @
          [GenerateTransferPoints (segmentation a) (bbox a)
             (positivePoints (settings rendered)) (negativePoints (settings rendered)),
           SegmentImage i (positive_points pd @ negative_points pd)
             (if (ex = None \<or> ex = Some []) \<and> confirmedPreviews rendered = [] then None
              else Some ((case ex of None \<Rightarrow> [] | Some as \<Rightarrow> map segmentation as)
                         @ map polygon (confirmedPreviews rendered)))])"
proof (intro impI, elim conjE)
  assume h: "i \<noteq> []" "generateTransferPoints api calls (segmentation a) (bbox a)
     (positivePoints (settings rendered)) (negativePoints (settings rendered)) = Inr pd"
  let ?arg = "if (ex = None \<or> ex = Some []) \<and> confirmedPreviews rendered = [] then None
             else Some ((case ex of None \<Rightarrow> [] | Some as \<Rightarrow> map segmentation as)
                        @ map polygon (confirmedPreviews rendered))"
  let ?req = "GenerateTransferPoints (segmentation a) (bbox a)
                           (positivePoints (settings rendered))
                           (negativePoints (settings rendered))"
  let ?pts = "positive_points pd @ negative_points pd"
  have 1: "snd (generateAndSegment api (Some i) ex rendered (Some a) (t, s, calls)) =
     snd (segment api i ?pts ?arg (s, calls @ [?req]))"
    using h by (auto simp: generateAndSegment_def existingPolygons_def Let_def
        split: option.splits sum.splits prod.splits)
  have 2: "snd (snd (generateAndSegment api (Some i) ex rendered (Some a) (t, s, calls))) =
          calls @ [?req, SegmentImage i ?pts ?arg]"
    if "?pts \<noteq> [] \<and> encodedImageRef s = Some i"
    using that segment_issues_one_request [of ?pts s i api "calls @ [?req]" ?arg]
    by (simp only: 1) simp
  from 1 2 show "snd (generateAndSegment api (Some i) ex rendered (Some a) (t, s, calls)) =
     snd (segment api i ?pts ?arg (s, calls @ [?req]))
   \<and> (?pts \<noteq> [] \<and> encodedImageRef s = Some i \<longrightarrow>
        snd (snd (generateAndSegment api (Some i) ex rendered (Some a) (t, s, calls))) =
          calls @ [?req, SegmentImage i ?pts ?arg])"
    by blast
qed

text \<open>
  C10. On the path that confirms a preview the exclusion polygons are not those of all
  confirmed previews. \<open>confirmCurrent\<close> queues the new entry of \<open>confirmedPreviews\<close>
  and then calls the \<open>generateAndSegment\<close> of the same render, which still closes over
  the list without that entry (lines 156-170, against the comment of line 100, "Add
  confirmed previews to existing"). At the first of two source annotations, with a
  preview and no annotation on the current slice, one preview is confirmed afterwards and
  the request for the second annotation carries \<open>null\<close>; with one annotation on the
  slice it carries the segmentation of that annotation only.
\<close>

theorem confirmCurrent_segments_without_confirmed_preview:
  "(case confirmCurrent (scripted_backend 9 (cell ''a1'' 1 0) [] (preview_at 0) clicks)
           (Some ''slice_0002'') (Some [])
           (first_step,
            initial_sam\<lparr>preview := Some (preview_at 2), encodedImageRef := Some ''slice_0002''\<rparr>,
            []) of
      (t', s', calls') \<Rightarrow>
        confirmedPreviews t' = [confirmed_at ''s1'' 3 2] \<and>
        calls' =
          [GenerateTransferPoints (square 20) [20, 0, 10, 10] 2 1,
           SegmentImage ''slice_0002'' [click 1, click 2, click 30] None])
   \<and> (case confirmCurrent (scripted_backend 9 (cell ''a1'' 1 0) [] (preview_at 0) clicks)
           (Some ''slice_0002'') (Some [cell ''a1'' 1 40])
           (first_step,
            initial_sam\<lparr>preview := Some (preview_at 2), encodedImageRef := Some ''slice_0002''\<rparr>,
            []) of
      (t', s', calls') \<Rightarrow>
        confirmedPreviews t' = [confirmed_at ''s1'' 3 2] \<and>
        calls' =
          [GenerateTransferPoints (square 20) [20, 0, 10, 10] 2 1,
           SegmentImage ''slice_0002'' [click 1, click 2, click 30] (Some [square 40])])"
  by (simp add: confirmCurrent_def advance_def currentAnnotation_def generateAndSegment_def
      existingPolygons_def segment_def first_step_def initial_transfer_def initial_sam_def
      scripted_backend_def preview_at_def confirmed_at_def cell_def clicks_def Let_def)

section \<open>Committing the confirmed transfers\<close>

text \<open>
  Without an image the loop issues nothing and does not fail. With one, the requests it
  issues are those of a prefix of the confirmed previews, in order, each successful one
  adding an annotation; a rejection stops it at the request that failed.
\<close>

lemma saveAll_unset: "unset imageId \<Longrightarrow> saveAll api imageId ps store = (Inr (), store)"
  by (induction ps) (auto simp: saveAnnotation_def split: prod.splits)

lemma saveAll_progress:
  "\<not> unset imageId \<Longrightarrow> saveAll api imageId ps (st, calls) = (r, st', calls') \<Longrightarrow>
     \<exists>n \<le> length ps.
       calls' = calls @ map (commit_request imageId) (take n ps) \<and>
       (case r of
          Inl e \<Rightarrow> 0 < n \<and> length (annotations st') = length (annotations st) + (n - 1)
        | Inr u \<Rightarrow> n = length ps \<and> length (annotations st') = length (annotations st) + n)"
proof (induction ps arbitrary: st calls)
  case Nil
  then show ?case by (auto split: sum.splits)
next
  case (Cons p ps)
  let ?data = "\<lparr>bbox = bbox p, area = area p, class_id = classId p, class_name = className p,
        segmentation = polygon p\<rparr>"
  show ?case
  proof (cases "createAnnotation api calls imageId ?data")
    case (Inl e)
    with Cons.prems have "r = Inl e" "calls' = calls @ [commit_request imageId p]"
      "annotations st' = annotations st"
      by (auto simp: saveAnnotation_def commit_request_def)
    then show ?thesis by (intro exI [of _ 1]) simp
  next
    case (Inr a)
    with Cons.prems have "saveAll api imageId ps
        (st\<lparr>annotations := annotations st @ [a], undoStack := undoStack st @ [Create a],
            redoStack := []\<rparr>, calls @ [commit_request imageId p]) = (r, st', calls')"
      by (simp add: saveAnnotation_def commit_request_def)
    from Cons.IH [OF Cons.prems(1) this] obtain n where n: "n \<le> length ps \<and>
       calls' = (calls @ [commit_request imageId p]) @ map (commit_request imageId) (take n ps) \<and>
       (case r of
          Inl e \<Rightarrow> 0 < n \<and>
            length (annotations st') =
              length (annotations (st\<lparr>annotations := annotations st @ [a],
                undoStack := undoStack st @ [Create a], redoStack := []\<rparr>)) + (n - 1)
        | Inr u \<Rightarrow> n = length ps \<and>
            length (annotations st') =
              length (annotations (st\<lparr>annotations := annotations st @ [a],
                undoStack := undoStack st @ [Create a], redoStack := []\<rparr>)) + n)"
      by blast
    then show ?thesis
      by (intro exI [of _ "Suc n"]) (auto split: sum.splits)
  qed
qed

text \<open>
  C9. If the loop of \<open>handleSaveAllTransfers\<close> is rejected, the transfer state and the
  orchestrator are untouched: \<open>cancelTransfer\<close> has not run, every entry is still in
  \<open>confirmedPreviews\<close> and the workflow is as active as before. The \<open>k\<close> entries before
  the one that failed are committed: the store holds \<open>k\<close> more annotations and the log
  the requests of the first \<open>k + 1\<close> entries. A second commit starts again at the first
  entry: the requests it issues are those of a non-empty prefix of the same list.
\<close>

theorem failed_commit_keeps_confirmed_previews:
  "saveAll api imageId (confirmedPreviews t) (st, calls) = (Inl e, st', calls') \<longrightarrow>
     handleSaveAllTransfers api imageId (st, t, s, calls) = (st', t, s, calls')
     \<and> (\<exists>k < length (confirmedPreviews t).
          length (annotations st') = length (annotations st) + k \<and>
          calls' = calls @ map (commit_request imageId) (take (Suc k) (confirmedPreviews t)))
     \<and> (\<exists>m. 0 < m \<and>
          snd (snd (snd (handleSaveAllTransfers api imageId (st', t, s, calls')))) =
            calls' @ map (commit_request imageId) (take m (confirmedPreviews t)))"
proof
  assume f: "saveAll api imageId (confirmedPreviews t) (st, calls) = (Inl e, st', calls')"
  have set: "\<not> unset imageId"
    using f saveAll_unset [of imageId api "confirmedPreviews t" "(st, calls)"] by auto
  have ne: "confirmedPreviews t \<noteq> []"
    using f by auto
  have 1: "handleSaveAllTransfers api imageId (st, t, s, calls) = (st', t, s, calls')"
    using f ne by (simp add: handleSaveAllTransfers_def)
  from saveAll_progress [OF set f] obtain n where n: "n \<le> length (confirmedPreviews t)"
    "calls' = calls @ map (commit_request imageId) (take n (confirmedPreviews t))"
    "0 < n" "length (annotations st') = length (annotations st) + (n - 1)"
    by auto
  then have 2: "\<exists>k < length (confirmedPreviews t).
          length (annotations st') = length (annotations st) + k \<and>
          calls' = calls @ map (commit_request imageId) (take (Suc k) (confirmedPreviews t))"
    by (intro exI [of _ "n - 1"]) auto
  obtain r2 st2 calls2 where
    again: "saveAll api imageId (confirmedPreviews t) (st', calls') = (r2, st2, calls2)"
    by (metis prod_cases3)
  from saveAll_progress [OF set again] obtain m where m:
    "m \<le> length (confirmedPreviews t) \<and>
     calls2 = calls' @ map (commit_request imageId) (take m (confirmedPreviews t)) \<and>
     (case r2 of
        Inl e \<Rightarrow> 0 < m \<and> length (annotations st2) = length (annotations st') + (m - 1)
      | Inr u \<Rightarrow> m = length (confirmedPreviews t) \<and>
          length (annotations st2) = length (annotations st') + m)"
    by blast
  have "0 < m" using m ne by (cases r2) auto
  moreover have "snd (snd (snd (handleSaveAllTransfers api imageId (st', t, s, calls')))) = calls2"
    using again ne by (cases r2) (simp_all add: handleSaveAllTransfers_def cancelTransfer_def)
  ultimately have 3: "\<exists>m. 0 < m \<and>
          snd (snd (snd (handleSaveAllTransfers api imageId (st', t, s, calls')))) =
            calls' @ map (commit_request imageId) (take m (confirmedPreviews t))"
    using m by auto
  from 1 2 3 show "handleSaveAllTransfers api imageId (st, t, s, calls) = (st', t, s, calls')
     \<and> (\<exists>k < length (confirmedPreviews t).
          length (annotations st') = length (annotations st) + k \<and>
          calls' = calls @ map (commit_request imageId) (take (Suc k) (confirmedPreviews t)))
     \<and> (\<exists>m. 0 < m \<and>
          snd (snd (snd (handleSaveAllTransfers api imageId (st', t, s, calls')))) =
            calls' @ map (commit_request imageId) (take m (confirmedPreviews t)))"
    by blast
qed

text \<open>
  Three confirmed previews against a backend that answers two requests and rejects the
  third: two annotations are created, and all three previews stay confirmed.
\<close>

theorem failed_commit_keeps_confirmed_previews_witness:
  "handleSaveAllTransfers (scripted_backend 2 (cell ''a1'' 3 2) [] (preview_at 0) clicks)
     (Some ''slice_0002'') (initial_annotations, all_confirmed, initial_sam, [])
   = (initial_annotations\<lparr>annotations := [cell ''a1'' 3 2, cell ''a1'' 3 2],
        undoStack := [Create (cell ''a1'' 3 2), Create (cell ''a1'' 3 2)],
        error := Some ''Network Error''\<rparr>,
      all_confirmed, initial_sam,
      map (commit_request (Some ''slice_0002''))
        [confirmed_at ''s1'' 3 2, confirmed_at ''s2'' 1 22, confirmed_at ''s3'' 2 42])
   \<and> isActive all_confirmed \<and> length (confirmedPreviews all_confirmed) = 3"
proof -
  let ?api = "scripted_backend 2 (cell ''a1'' 3 2) [] (preview_at 0) clicks"
  let ?st = "initial_annotations\<lparr>annotations := [cell ''a1'' 3 2, cell ''a1'' 3 2],
        undoStack := [Create (cell ''a1'' 3 2), Create (cell ''a1'' 3 2)],
        error := Some ''Network Error''\<rparr>"
  let ?calls = "map (commit_request (Some ''slice_0002''))
        [confirmed_at ''s1'' 3 2, confirmed_at ''s2'' 1 22, confirmed_at ''s3'' 2 42]"
  have fails: "saveAll ?api (Some ''slice_0002'') (confirmedPreviews all_confirmed)
      (initial_annotations, []) = (Inl network_error, ?st, ?calls)"
    by (simp add: all_confirmed_def initial_transfer_def saveAnnotation_def scripted_backend_def
        commit_request_def confirmed_at_def initial_annotations_def network_error_def)
  note all = failed_commit_keeps_confirmed_previews
      [where api = ?api and imageId = "Some ''slice_0002''" and t = all_confirmed
         and st = initial_annotations and calls = "[]" and e = network_error
         and st' = ?st and calls' = ?calls and s = initial_sam, THEN mp, OF fails]
  from all [THEN conjunct1] show ?thesis
    by (simp add: all_confirmed_def initial_transfer_def)
qed

section \<open>The debounced segmentation\<close>

text \<open>
  \<open>setTimeout\<close> cancels nothing: the timers already pending stay in the table.
\<close>

lemma setTimeout_keeps_pending:
  "timers (snd (setTimeout i pts ex delay a)) =
     timers a @ [(nextTimerId a,
       \<lparr>due = now a + delay, seg_imageId = i, seg_points = pts, seg_existingPolygons = ex\<rparr>)]"
  by (simp add: setTimeout_def)

text \<open>
  The only timers of the application are those of the effect, and the effect clears the
  timer of its previous run before it sets a new one. So in every state that the
  application reaches, a pending timer is the one that the cleanup of the last run holds.
  Under this invariant the cleanup empties the table.
\<close>

lemma no_cleanup_no_timer:
  "\<forall>(k, timer) \<in> set (timers a). effectCleanup a = Some k \<Longrightarrow> effectCleanup a = None \<Longrightarrow>
     timers a = []"
  by (cases "timers a") auto

lemma cleanup_clears_pending:
  "\<forall>(k, timer) \<in> set (timers a). effectCleanup a = Some k \<Longrightarrow> effectCleanup a = Some n \<Longrightarrow>
     filter (\<lambda>(k, timer). k \<noteq> n) (timers a) = []"
  by (auto simp: filter_empty_conv)

text \<open>
  The invariant holds at the start, where no timer is pending, and every run of the effect
  and every passing of time keeps it.
\<close>

lemma segmentEffect_keeps_invariant:
  assumes "\<forall>(k, timer) \<in> set (timers a). effectCleanup a = Some k"
  shows "\<forall>(k, timer) \<in> set (timers (segmentEffect a)). effectCleanup (segmentEffect a) = Some k"
proof (cases "effectCleanup a")
  case None
  with no_cleanup_no_timer [OF assms None] show ?thesis
    by (simp add: segmentEffect_def setTimeout_def Let_def split: option.splits)
next
  case (Some n)
  with cleanup_clears_pending [OF assms Some] show ?thesis
    by (simp add: segmentEffect_def setTimeout_def clearTimeout_def Let_def split: option.splits)
qed

lemma elapse_keeps_invariant:
  "\<forall>(k, timer) \<in> set (timers a). effectCleanup a = Some k \<Longrightarrow>
     \<forall>(k, timer) \<in> set (timers (elapse api d a)). effectCleanup (elapse api d a) = Some k"
  by (auto simp: elapse_def Let_def split: prod.splits)

text \<open>
  A point added less than 100 ms before the next event leaves one timer, the new one; a
  point followed by 100 ms or more of quiet fires that timer with the points then present.
\<close>

lemma add_point_rearms:
  assumes "selectedImageId a = Some i" "i \<noteq> []"
    and "\<forall>(k, timer) \<in> set (timers a). effectCleanup a = Some k"
  shows "handleAddPoint p a =
       a\<lparr>points := points a @ [p],
         timers := [(nextTimerId a,
           \<lparr>due = now a + 100, seg_imageId = i, seg_points = points a @ [p],
            seg_existingPolygons = Some (map segmentation (shown_annotations a))\<rparr>)],
         nextTimerId := nextTimerId a + 1,
         effectCleanup := Some (nextTimerId a)\<rparr>"
proof (cases "effectCleanup a")
  case None
  with assms(1,2) no_cleanup_no_timer [OF assms(3) None] show ?thesis
    by (simp add: handleAddPoint_def segmentEffect_def setTimeout_def Let_def)
next
  case (Some n)
  with assms(1,2) cleanup_clears_pending [OF assms(3) Some] show ?thesis
    by (simp add: handleAddPoint_def segmentEffect_def setTimeout_def clearTimeout_def Let_def)
qed

lemma add_then_wait_short:
  assumes "selectedImageId a = Some i" "i \<noteq> []"
    and "\<forall>(k, timer) \<in> set (timers a). effectCleanup a = Some k" and "d < 100"
  shows "elapse api d (handleAddPoint p a) =
       a\<lparr>now := now a + d, points := points a @ [p],
         timers := [(nextTimerId a,
           \<lparr>due = now a + 100, seg_imageId = i, seg_points = points a @ [p],
            seg_existingPolygons = Some (map segmentation (shown_annotations a))\<rparr>)],
         nextTimerId := nextTimerId a + 1,
         effectCleanup := Some (nextTimerId a)\<rparr>"
  using assms(4) by (simp add: add_point_rearms [OF assms(1-3)] elapse_def Let_def)

lemma add_then_wait_long:
  assumes "selectedImageId a = Some i" "i \<noteq> []"
    and "\<forall>(k, timer) \<in> set (timers a). effectCleanup a = Some k" and "100 \<le> d"
  shows "elapse api d (handleAddPoint p a) =
       (case segment api i (points a @ [p]) (Some (map segmentation (shown_annotations a)))
               (sam_hook a, issued a) of
          (r, s', calls') \<Rightarrow>
            a\<lparr>now := now a + d, points := points a @ [p], timers := [],
              nextTimerId := nextTimerId a + 1, effectCleanup := Some (nextTimerId a),
              sam_hook := s', issued := calls'\<rparr>)"
  using assms(4)
  by (simp add: add_point_rearms [OF assms(1-3)] elapse_def Let_def split: prod.splits)

lemma burst_coalesces_state:
  "selectedImageId a = Some i \<Longrightarrow> i \<noteq> [] \<Longrightarrow>
   \<forall>(k, timer) \<in> set (timers a). effectCleanup a = Some k \<Longrightarrow>
   \<forall>(p, d) \<in> set pds. d < 100 \<Longrightarrow> 100 \<le> d_last \<Longrightarrow>
     burst api (pds @ [(p_last, d_last)]) a =
       (case segment api i (points a @ map fst pds @ [p_last])
               (Some (map segmentation (shown_annotations a))) (sam_hook a, issued a) of
          (r, s', calls') \<Rightarrow>
            a\<lparr>now := now a + sum_list (map snd pds) + d_last,
              points := points a @ map fst pds @ [p_last], timers := [],
              nextTimerId := nextTimerId a + length pds + 1,
              effectCleanup := Some (nextTimerId a + length pds),
              sam_hook := s', issued := calls'\<rparr>)"
proof (induction pds arbitrary: a)
  case Nil
  then show ?case by (simp add: add_then_wait_long)
next
  case (Cons pd pds)
  obtain p d where pd: "pd = (p, d)" by (cases pd)
  with Cons.prems have d: "d < 100" and rest: "\<forall>(p, d) \<in> set pds. d < 100" by auto
  let ?a = "elapse api d (handleAddPoint p a)"
  have a': "?a = a\<lparr>now := now a + d, points := points a @ [p],
         timers := [(nextTimerId a,
           \<lparr>due = now a + 100, seg_imageId = i, seg_points = points a @ [p],
            seg_existingPolygons = Some (map segmentation (shown_annotations a))\<rparr>)],
         nextTimerId := nextTimerId a + 1,
         effectCleanup := Some (nextTimerId a)\<rparr>"
    using Cons.prems(1,2,3) d by (rule add_then_wait_short)
  have sel: "selectedImageId ?a = Some i" using a' Cons.prems(1) by simp
  have inv: "\<forall>(k, timer) \<in> set (timers ?a). effectCleanup ?a = Some k"
    by (simp add: a')
  from Cons.IH [OF sel Cons.prems(2) inv rest Cons.prems(5)]
  show ?case
    by (simp add: pd a' add.assoc split: prod.splits)
qed

text \<open>
  C8, as the code has it. With an image selected, a burst of point additions, each
  followed by less than 100 ms of quiet except the last, which is followed by at least
  100 ms, leaves the application as one single call of \<open>segment\<close> does, made with all
  the points and the segmentations of the annotations shown. That call issues exactly one
  \<open>segmentImage\<close> request, carrying the final point set, when the image is already
  encoded or its encoding succeeds; when \<open>encodeImage\<close> is rejected it issues the
  request to encode and no \<open>segmentImage\<close> request. Every addition clears the pending
  timer, sets one new timer due 100 ms later and issues nothing.
\<close>

theorem burst_is_one_segment_invocation:
  "selectedImageId a = Some i \<and> i \<noteq> [] \<and>
   (\<forall>(k, timer) \<in> set (timers a). effectCleanup a = Some k) \<and>
   (\<forall>(p, d) \<in> set pds. d < 100) \<and> 100 \<le> d_last \<longrightarrow>
     burst api (pds @ [(p_last, d_last)]) a =
       (case segment api i (points a @ map fst pds @ [p_last])
               (Some (map segmentation (shown_annotations a))) (sam_hook a, issued a) of
          (r, s', calls') \<Rightarrow>
            a\<lparr>now := now a + sum_list (map snd pds) + d_last,
              points := points a @ map fst pds @ [p_last], timers := [],
              nextTimerId := nextTimerId a + length pds + 1,
              effectCleanup := Some (nextTimerId a + length pds),
              sam_hook := s', issued := calls'\<rparr>)
     \<and> (encodedImageRef (sam_hook a) = Some i \<or> encodeImage api (issued a) i = Inr () \<longrightarrow>
          issued (burst api (pds @ [(p_last, d_last)]) a) =
            issued a @ (if encodedImageRef (sam_hook a) = Some i then [] else [EncodeImage i])
              @ [SegmentImage i (points a @ map fst pds @ [p_last])
                   (Some (map segmentation (shown_annotations a)))]
          \<and> length (filter is_segmentImage (issued (burst api (pds @ [(p_last, d_last)]) a))) =
              length (filter is_segmentImage (issued a)) + 1)
     \<and> (encodedImageRef (sam_hook a) \<noteq> Some i \<and> encodeImage api (issued a) i = Inl e \<longrightarrow>
          issued (burst api (pds @ [(p_last, d_last)]) a) = issued a @ [EncodeImage i]
          \<and> length (filter is_segmentImage (issued (burst api (pds @ [(p_last, d_last)]) a))) =
              length (filter is_segmentImage (issued a)))
     \<and> timers (handleAddPoint p_last a) =
          [(nextTimerId a,
            \<lparr>due = now a + 100, seg_imageId = i, seg_points = points a @ [p_last],
             seg_existingPolygons = Some (map segmentation (shown_annotations a))\<rparr>)]
     \<and> issued (handleAddPoint p_last a) = issued a"
proof (intro impI, elim conjE)
  assume h: "selectedImageId a = Some i" "i \<noteq> []"
    "\<forall>(k, timer) \<in> set (timers a). effectCleanup a = Some k"
    "\<forall>(p, d) \<in> set pds. d < 100" "100 \<le> d_last"
  let ?pts = "points a @ map fst pds @ [p_last]"
  let ?ex = "Some (map segmentation (shown_annotations a))"
  let ?b = "burst api (pds @ [(p_last, d_last)]) a"
  have 1: "?b =
       (case segment api i ?pts ?ex (sam_hook a, issued a) of
          (r, s', calls') \<Rightarrow>
            a\<lparr>now := now a + sum_list (map snd pds) + d_last,
              points := ?pts, timers := [],
              nextTimerId := nextTimerId a + length pds + 1,
              effectCleanup := Some (nextTimerId a + length pds),
              sam_hook := s', issued := calls'\<rparr>)"
    using h by (rule burst_coalesces_state)
  have i: "issued ?b = snd (snd (segment api i ?pts ?ex (sam_hook a, issued a)))"
    by (simp add: 1 split: prod.splits)
  have 2: "issued ?b =
            issued a @ (if encodedImageRef (sam_hook a) = Some i then [] else [EncodeImage i])
              @ [SegmentImage i ?pts ?ex]
          \<and> length (filter is_segmentImage (issued ?b)) =
              length (filter is_segmentImage (issued a)) + 1"
    if "encodedImageRef (sam_hook a) = Some i \<or> encodeImage api (issued a) i = Inr ()"
    using segment_issues_one_request [OF _ that, of ?pts ?ex] by (simp add: i)
  have 3: "issued ?b = issued a @ [EncodeImage i]
          \<and> length (filter is_segmentImage (issued ?b)) =
              length (filter is_segmentImage (issued a))"
    if "encodedImageRef (sam_hook a) \<noteq> Some i \<and> encodeImage api (issued a) i = Inl e"
    using segment_stops_at_failed_encoding [of ?pts "sam_hook a" i api "issued a" e ?ex] that
    by (simp add: i)
  have 4: "timers (handleAddPoint p_last a) =
          [(nextTimerId a,
            \<lparr>due = now a + 100, seg_imageId = i, seg_points = points a @ [p_last],
             seg_existingPolygons = ?ex\<rparr>)]
     \<and> issued (handleAddPoint p_last a) = issued a"
    by (simp add: add_point_rearms [OF h(1-3)])
  from 1 2 3 4 show "?b =
       (case segment api i ?pts ?ex (sam_hook a, issued a) of
          (r, s', calls') \<Rightarrow>
            a\<lparr>now := now a + sum_list (map snd pds) + d_last,
              points := ?pts, timers := [],
              nextTimerId := nextTimerId a + length pds + 1,
              effectCleanup := Some (nextTimerId a + length pds),
              sam_hook := s', issued := calls'\<rparr>)
     \<and> (encodedImageRef (sam_hook a) = Some i \<or> encodeImage api (issued a) i = Inr () \<longrightarrow>
          issued ?b =
            issued a @ (if encodedImageRef (sam_hook a) = Some i then [] else [EncodeImage i])
              @ [SegmentImage i ?pts ?ex]
          \<and> length (filter is_segmentImage (issued ?b)) =
              length (filter is_segmentImage (issued a)) + 1)
     \<and> (encodedImageRef (sam_hook a) \<noteq> Some i \<and> encodeImage api (issued a) i = Inl e \<longrightarrow>
          issued ?b = issued a @ [EncodeImage i]
          \<and> length (filter is_segmentImage (issued ?b)) =
              length (filter is_segmentImage (issued a)))
     \<and> timers (handleAddPoint p_last a) =
          [(nextTimerId a,
            \<lparr>due = now a + 100, seg_imageId = i, seg_points = points a @ [p_last],
             seg_existingPolygons = ?ex\<rparr>)]
     \<and> issued (handleAddPoint p_last a) = issued a"
    by blast
qed

text \<open>
  Five additions within 100 ms of each other, against a backend that answers and against
  one that is offline.
\<close>

theorem burst_is_one_segment_invocation_witness:
  "issued (burst (scripted_backend 9 (cell ''a1'' 1 0) [] (preview_at 0) clicks)
             [(click 1, 20), (click 2, 30), (click 3, 10), (click 4, 40), (click 5, 100)]
             rapid_session)
     = [EncodeImage ''slice_0001'',
        SegmentImage ''slice_0001'' [click 1, click 2, click 3, click 4, click 5]
          (Some [square 40])]
   \<and> length (filter is_segmentImage
        (issued (burst (scripted_backend 9 (cell ''a1'' 1 0) [] (preview_at 0) clicks)
             [(click 1, 20), (click 2, 30), (click 3, 10), (click 4, 40), (click 5, 100)]
             rapid_session))) = 1
   \<and> issued (burst (scripted_backend 0 (cell ''a1'' 1 0) [] (preview_at 0) clicks)
             [(click 1, 20), (click 2, 30), (click 3, 10), (click 4, 40), (click 5, 100)]
             rapid_session)
     = [EncodeImage ''slice_0001'']
   \<and> timers (handleAddPoint (click 5) rapid_session) =
        [(0, \<lparr>due = 100, seg_imageId = ''slice_0001'', seg_points = [click 5],
              seg_existingPolygons = Some [square 40]\<rparr>)]"
proof -
  let ?on = "scripted_backend 9 (cell ''a1'' 1 0) [] (preview_at 0) clicks"
  let ?off = "scripted_backend 0 (cell ''a1'' 1 0) [] (preview_at 0) clicks"
  have pre: "selectedImageId rapid_session = Some ''slice_0001'' \<and> ''slice_0001'' \<noteq> [] \<and>
      (\<forall>(k, timer) \<in> set (timers rapid_session). effectCleanup rapid_session = Some k) \<and>
      (\<forall>(p, d) \<in> set [(click 1, 20), (click 2, 30), (click 3, 10), (click 4, 40)]. d < (100::nat)) \<and>
      (100::nat) \<le> 100"
    by (simp add: rapid_session_def)
  have enc: "encodeImage ?on (issued rapid_session) ''slice_0001'' = Inr ()"
    by (simp add: scripted_backend_def rapid_session_def)
  have rej: "encodedImageRef (sam_hook rapid_session) \<noteq> Some ''slice_0001'' \<and>
      encodeImage ?off (issued rapid_session) ''slice_0001'' = Inl network_error"
    by (simp add: scripted_backend_def rapid_session_def initial_sam_def)
  note on = burst_is_one_segment_invocation
      [where a = rapid_session and i = "''slice_0001''"
         and pds = "[(click 1, 20), (click 2, 30), (click 3, 10), (click 4, 40)]"
         and p_last = "click 5" and d_last = 100 and api = ?on, THEN mp, OF pre]
  note off = burst_is_one_segment_invocation
      [where a = rapid_session and i = "''slice_0001''"
         and pds = "[(click 1, 20), (click 2, 30), (click 3, 10), (click 4, 40)]"
         and p_last = "click 5" and d_last = 100 and api = ?off and e = network_error,
       THEN mp, OF pre]
  note one = on [THEN conjunct2, THEN conjunct1, THEN mp, OF disjI2, OF enc]
  note none = off [THEN conjunct2, THEN conjunct2, THEN conjunct1, THEN mp, OF rej, THEN conjunct1]
  note armed = on [THEN conjunct2, THEN conjunct2, THEN conjunct2, THEN conjunct1]
  show ?thesis
    using one none armed by (simp add: rapid_session_def initial_sam_def cell_def)
qed

text \<open>
  C8 as the specification states it, exactly one \<open>segmentImage\<close> call for every such
  burst, fails when the image cannot be encoded: the five additions then issue none.
\<close>

theorem burst_counterexample:
  "length (filter is_segmentImage
     (issued (burst (scripted_backend 0 (cell ''a1'' 1 0) [] (preview_at 0) clicks)
        [(click 1, 20), (click 2, 30), (click 3, 10), (click 4, 40), (click 5, 100)]
        rapid_session))) = 0"
proof -
  let ?off = "scripted_backend 0 (cell ''a1'' 1 0) [] (preview_at 0) clicks"
  let ?pts = "[click 1, click 2, click 3, click 4, click 5]"
  have "burst ?off ([(click 1, 20), (click 2, 30), (click 3, 10), (click 4, 40)] @ [(click 5, 100)])
          rapid_session =
       (case segment ?off ''slice_0001''
               (points rapid_session
                @ map fst [(click 1, 20::nat), (click 2, 30), (click 3, 10), (click 4, 40)]
                @ [click 5])
               (Some (map segmentation (shown_annotations rapid_session)))
               (sam_hook rapid_session, issued rapid_session) of
          (r, s', calls') \<Rightarrow>
            rapid_session\<lparr>now := now rapid_session
                + sum_list (map snd [(click 1, 20::nat), (click 2, 30), (click 3, 10), (click 4, 40)])
                + 100,
              points := points rapid_session
                @ map fst [(click 1, 20::nat), (click 2, 30), (click 3, 10), (click 4, 40)]
                @ [click 5],
              timers := [],
              nextTimerId := nextTimerId rapid_session
                + length [(click 1, 20::nat), (click 2, 30), (click 3, 10), (click 4, 40)] + 1,
              effectCleanup := Some (nextTimerId rapid_session
                + length [(click 1, 20::nat), (click 2, 30), (click 3, 10), (click 4, 40)]),
              sam_hook := s', issued := calls'\<rparr>)"
    by (rule burst_coalesces_state) (simp_all add: rapid_session_def)
  then have "issued (burst ?off
        [(click 1, 20), (click 2, 30), (click 3, 10), (click 4, 40), (click 5, 100)]
        rapid_session) =
      snd (snd (segment ?off ''slice_0001'' ?pts (Some [square 40]) (initial_sam, [])))"
    by (simp add: rapid_session_def cell_def split: prod.splits)
  also have "\<dots> = [] @ [EncodeImage ''slice_0001'']"
    using segment_stops_at_failed_encoding
      [of ?pts initial_sam "''slice_0001''" ?off "[]" network_error "Some [square 40]"]
    by (simp add: initial_sam_def scripted_backend_def)
  finally show ?thesis
    by simp
qed

end
